theory Spec2Isabelle
  imports Complex_Main "HOL-Library.Multiset"
begin

chapter \<open>The kanban board and the scanner, as functions\<close>

section \<open>Layout constants (constants/theme.ts, kanban screen header)\<close>

text \<open>
  The window width \<open>SCREEN_WIDTH\<close> comes from the platform (\<open>Dimensions.get\<close>); it is
  the parameter \<open>W\<close> of every function that reads it. JavaScript numbers (pointer
  coordinates, scroll offsets) are modelled as exact reals; \<open>Date.now()\<close> is an integer
  number of milliseconds.
\<close>

definition spacing_sm :: real where
  "spacing_sm = 8"

definition spacing_md :: real where
  "spacing_md = 16"

definition isSmallDevice :: "real \<Rightarrow> bool" where
  "isSmallDevice W = (W < 375)"

definition isTablet :: "real \<Rightarrow> bool" where
  "isTablet W = (W \<ge> 768)"

definition COLUMN_WIDTH :: "real \<Rightarrow> real" where
  "COLUMN_WIDTH W = (if isSmallDevice W then 260 else if isTablet W then 320 else 300)"

definition columnSpacing :: "real \<Rightarrow> real" where
  "columnSpacing W = COLUMN_WIDTH W + spacing_sm * 2"

definition boardPadding :: real where
  "boardPadding = spacing_md"

section \<open>Strings and the builtins of the engine\<close>

text \<open>
  A JavaScript string is a \<open>string\<close>. The builtins whose results rest on the Unicode
  tables, on the locale or on the printing of numbers are not spelled out:
  \<open>String.prototype.trim\<close>, \<open>toLowerCase\<close> and \<open>localeCompare\<close>, and
  \<open>Number.prototype.toString\<close>, are the fields of a record that the state of each
  screen carries and no handler changes. The properties below are stated for every value
  of these fields, the engine's own functions among them.
\<close>

record builtins =
  trim :: "string \<Rightarrow> string"
  toLowerCase :: "string \<Rightarrow> string"
  localeCompare :: "string \<Rightarrow> string \<Rightarrow> int"
  toString :: "real \<Rightarrow> string"

text \<open>\<open>String.prototype.includes\<close>: the argument occurs as a contiguous part.\<close>

fun includes_str :: "string \<Rightarrow> string \<Rightarrow> bool" where
  "includes_str [] q = (q = [])"
| "includes_str (c # cs) q = (take (length q) (c # cs) = q \<or> includes_str cs q)"

text \<open>
  The length of an array inside a template literal: an array length is below \<open>2^32\<close>,
  and such a number is printed as its decimal digits.
\<close>

fun natToString :: "nat \<Rightarrow> string" where
  "natToString n =
     (if n < 10 then [''0123456789'' ! n]
      else natToString (n div 10) @ [''0123456789'' ! (n mod 10)])"

declare natToString.simps [simp del]

section \<open>Data model\<close>

text \<open>
  \<open>SavedProduct\<close> of the API module: \<open>material\<close> is a number; \<open>_id\<close>, \<open>category\<close>
  and \<open>createdAt\<close> can be missing. \<open>createdAt\<close> holds
  \<open>new Date(createdAt).getTime()\<close> of the stored timestamp; a missing or empty
  timestamp is \<open>None\<close>.
\<close>

record SavedProduct =
  p_id :: "string option"
  material :: real
  barcode :: string
  description :: string
  category :: "string option"
  createdAt :: "int option"

datatype js_error = Error string | Thrown

datatype direction = left | right

datatype effect =
    Alert string string
  | UpdateProductCategory string string
  | GetAllCategories
  | GetAllProducts
  | DeleteCategory string
  | ScrollTo real
  | AutoScroll int int

text \<open>
  The state of \<open>KanbanScreen\<close>: the builtins of the engine it runs on (\<open>js\<close>), its
  \<open>useState\<close> cells, its \<open>useRef\<close> cells, the pending anonymous 500 ms timers
  (\<open>scrollResetTimers\<close>, the times at which they are due), and the calls made to the
  outside in the order they were made (\<open>effects\<close>).
  \<open>scrollTimeoutRef\<close> holds the due time of the pending 550 ms timer and the
  \<open>currentIndex\<close> its callback captured. An \<open>AutoScroll t k\<close> entry records that the
  scrolling branch of \<open>scrollBasedOnScreenPosition\<close> ran at time \<open>t\<close> towards column \<open>k\<close>.
\<close>

record kanban =
  js :: builtins
  products :: "SavedProduct list"
  categories :: "string list"
  loading :: bool
  refreshing :: bool
  updating :: "string option"
  dragTargetCategory :: "string option"
  draggedProduct :: "SavedProduct option"
  dragPosition :: "(real \<times> real) option"
  draggedProductTargetCategory :: "string option"
  searchQuery :: string
  selectedCategory :: "string option"
  boardScrollRef :: bool
  scrollTimeoutRef :: "(int \<times> int) option"
  currentScrollXRef :: real
  isScrollingRef :: bool
  lastScrollDirectionRef :: "direction option"
  lastScrollTimeRef :: int
  currentDragXRef :: real
  lastScrolledToIndexRef :: int
  scrollResetTimers :: "int list"
  effects :: "effect list"

definition emit :: "effect \<Rightarrow> kanban \<Rightarrow> kanban" where
  "emit e st = st\<lparr>effects := effects st @ [e]\<rparr>"

section \<open>Filtering and ordering of the columns\<close>

definition Uncategorized :: string where
  "Uncategorized = ''Uncategorized''"

text \<open>\<open>p.category || 'Uncategorized'\<close>: a missing or empty category is the sentinel.\<close>

definition categoryOf :: "SavedProduct \<Rightarrow> string" where
  "categoryOf p = (case category p of None \<Rightarrow> Uncategorized
                   | Some c \<Rightarrow> if c = [] then Uncategorized else c)"

definition matchesSearch :: "builtins \<Rightarrow> string \<Rightarrow> SavedProduct \<Rightarrow> bool" where
  "matchesSearch B lowerQuery p =
     (includes_str (toLowerCase B (toString B (material p))) lowerQuery
      \<or> includes_str (toLowerCase B (barcode p)) lowerQuery
      \<or> includes_str (toLowerCase B (description p)) lowerQuery)"

definition filterProductsBySearch ::
  "builtins \<Rightarrow> SavedProduct list \<Rightarrow> string \<Rightarrow> SavedProduct list" where
  "filterProductsBySearch B productList query =
     (if trim B query = [] then productList
      else filter (matchesSearch B (trim B (toLowerCase B query))) productList)"

definition selected :: "kanban \<Rightarrow> bool" where
  "selected st = (case selectedCategory st of None \<Rightarrow> False | Some c \<Rightarrow> c \<noteq> [])"

definition getFilteredProducts :: "kanban \<Rightarrow> SavedProduct list" where
  "getFilteredProducts st =
     (let filteredProducts = products st;
          filteredProducts =
            (if selected st
             then filter (\<lambda>p. Some (categoryOf p) = selectedCategory st) filteredProducts
             else filteredProducts)
      in if trim (js st) (searchQuery st) \<noteq> []
         then filterProductsBySearch (js st) filteredProducts (searchQuery st)
         else filteredProducts)"

definition getFilteredCategories :: "kanban \<Rightarrow> string list" where
  "getFilteredCategories st =
     (if trim (js st) (searchQuery st) = [] \<and> \<not> selected st then categories st
      else filter (\<lambda>cat. cat \<in> set (map categoryOf (getFilteredProducts st))) (categories st))"

text \<open>
  \<open>Array.prototype.sort\<close> returns a permutation of the array and is stable. For a
  comparator that is a consistent order every engine returns the list computed by this
  stable insertion sort. For an inconsistent comparator the language leaves the order to
  the engine, and \<open>sortBy\<close> is one order among those allowed; the comparator of the
  columns is consistent when every product compared has a \<open>createdAt\<close>, and no property
  below speaks of the order in the other case.
\<close>

fun insertBy :: "('a \<Rightarrow> 'a \<Rightarrow> int) \<Rightarrow> 'a \<Rightarrow> 'a list \<Rightarrow> 'a list" where
  "insertBy cmp x [] = [x]"
| "insertBy cmp x (y # ys) = (if cmp x y \<le> 0 then x # y # ys else y # insertBy cmp x ys)"

definition sortBy :: "('a \<Rightarrow> 'a \<Rightarrow> int) \<Rightarrow> 'a list \<Rightarrow> 'a list" where
  "sortBy cmp xs = foldr (insertBy cmp) xs []"

definition compareProducts :: "builtins \<Rightarrow> SavedProduct \<Rightarrow> SavedProduct \<Rightarrow> int" where
  "compareProducts B a b =
     (case (createdAt a, createdAt b) of
        (Some ta, Some tb) \<Rightarrow> tb - ta
      | _ \<Rightarrow> localeCompare B (barcode a) (barcode b))"

definition getProductsByCategory :: "kanban \<Rightarrow> string \<Rightarrow> SavedProduct list" where
  "getProductsByCategory st cat =
     sortBy (compareProducts (js st))
       (filter (\<lambda>p. categoryOf p = cat) (getFilteredProducts st))"

section \<open>Fetching categories and products\<close>

text \<open>
  An \<open>async\<close> handler is split at its \<open>await\<close>s: one function runs up to the call, the
  next one takes the settled result of the call (\<open>Inl\<close> a rejection, \<open>Inr\<close> the value)
  and runs on. \<open>console.log\<close> and haptic feedback are left out.
\<close>

definition fetchCategories_begin :: "kanban \<Rightarrow> kanban" where
  "fetchCategories_begin st = emit GetAllCategories st"

definition fetchCategories_done :: "js_error + string list \<Rightarrow> kanban \<Rightarrow> kanban" where
  "fetchCategories_done res st =
     (case res of
        Inr fetchedCategories \<Rightarrow>
          (if Uncategorized \<in> set fetchedCategories
           then st\<lparr>categories := Uncategorized # filter (\<lambda>cat. cat \<noteq> Uncategorized) fetchedCategories\<rparr>
           else st\<lparr>categories := Uncategorized # fetchedCategories\<rparr>)
      | Inl e \<Rightarrow> st\<lparr>categories := [Uncategorized]\<rparr>)"

definition fetchCategories :: "js_error + string list \<Rightarrow> kanban \<Rightarrow> kanban" where
  "fetchCategories res st = fetchCategories_done res (fetchCategories_begin st)"

definition fetchProducts_begin :: "bool \<Rightarrow> kanban \<Rightarrow> kanban" where
  "fetchProducts_begin showLoader st =
     emit GetAllProducts (if showLoader then st\<lparr>loading := True\<rparr> else st\<lparr>refreshing := True\<rparr>)"

definition fetchProducts_done :: "js_error + SavedProduct list \<Rightarrow> kanban \<Rightarrow> kanban" where
  "fetchProducts_done res st =
     (let st = (case res of
                  Inr fetchedProducts \<Rightarrow> st\<lparr>products := fetchedProducts\<rparr>
                | Inl e \<Rightarrow> emit (Alert ''Error'' ''Failed to load products'') st)
      in st\<lparr>loading := False, refreshing := False\<rparr>)"

section \<open>Drag session bookkeeping of the board\<close>

definition handleDragEnd :: "kanban \<Rightarrow> kanban" where
  "handleDragEnd st =
     st\<lparr>dragTargetCategory := None, draggedProduct := None, dragPosition := None,
        draggedProductTargetCategory := None, lastScrollDirectionRef := None,
        isScrollingRef := False, lastScrollTimeRef := 0, lastScrolledToIndexRef := - 1,
        currentDragXRef := 0, scrollTimeoutRef := None\<rparr>"

definition handleDragStart :: "SavedProduct \<Rightarrow> real \<times> real \<Rightarrow> kanban \<Rightarrow> kanban" where
  "handleDragStart product position st =
     st\<lparr>draggedProduct := Some product, dragPosition := Some position\<rparr>"

definition handleDragUpdate :: "real \<times> real \<Rightarrow> kanban \<Rightarrow> kanban" where
  "handleDragUpdate position st =
     st\<lparr>dragPosition := Some position, currentDragXRef := fst position\<rparr>"

definition handleDragClear :: "kanban \<Rightarrow> kanban" where
  "handleDragClear st =
     st\<lparr>draggedProduct := None, dragPosition := None, draggedProductTargetCategory := None\<rparr>"

section \<open>Committing a drop\<close>

text \<open>The results of the calls one handler makes, in the order it makes them.\<close>

record network =
  patched :: "js_error + unit"
  fetchedCategories :: "js_error + string list"
  fetchedProducts :: "js_error + SavedProduct list"
  deleted :: "js_error + unit"

text \<open>\<open>product._id || null\<close> and \<open>newCategory || 'Uncategorized'\<close>.\<close>

definition idOf :: "SavedProduct \<Rightarrow> string option" where
  "idOf p = (case p_id p of None \<Rightarrow> None | Some i \<Rightarrow> if i = [] then None else Some i)"

definition targetOf :: "string \<Rightarrow> string" where
  "targetOf newCategory = (if newCategory = [] then Uncategorized else newCategory)"

text \<open>
  \<open>handleProductDrop\<close> up to \<open>await updateProductCategory\<close>; the flag tells whether the
  handler is suspended on the PATCH (\<open>True\<close>) or has returned.
\<close>

definition handleProductDrop_begin :: "SavedProduct \<Rightarrow> string \<Rightarrow> kanban \<Rightarrow> kanban \<times> bool" where
  "handleProductDrop_begin product newCategory st =
     (let currentCategory = categoryOf product;
          targetCategory = targetOf newCategory
      in if currentCategory = targetCategory then (handleDragEnd st, False)
         else
           (let st = st\<lparr>updating := idOf product\<rparr>
            in case idOf product of
                 None \<Rightarrow>
                   ((handleDragEnd (emit (Alert ''Error'' ''Product ID is missing'') st))
                      \<lparr>updating := None\<rparr>, False)
               | Some i \<Rightarrow> (emit (UpdateProductCategory i targetCategory) st, True)))"

text \<open>From the settled PATCH to \<open>await fetchCategories()\<close>, or through the \<open>catch\<close> block.\<close>

definition handleProductDrop_patched ::
  "SavedProduct \<Rightarrow> string \<Rightarrow> js_error + unit \<Rightarrow> kanban \<Rightarrow> kanban" where
  "handleProductDrop_patched product newCategory res st =
     (case res of
        Inr u \<Rightarrow>
          fetchCategories_begin
            (st\<lparr>products :=
                  map (\<lambda>p. if p_id p = p_id product
                            then p\<lparr>category := Some (targetOf newCategory)\<rparr> else p)
                      (products st)\<rparr>)
      | Inl e \<Rightarrow>
          (handleDragEnd
             (fetchProducts_begin False
                (emit (Alert ''Error'' ''Failed to update product category'') st)))
            \<lparr>updating := None\<rparr>)"

definition handleProductDrop_settled :: "js_error + string list \<Rightarrow> kanban \<Rightarrow> kanban" where
  "handleProductDrop_settled res st = (handleDragEnd (fetchCategories_done res st))\<lparr>updating := None\<rparr>"

text \<open>The whole handler, every call settled with the result \<open>net\<close> gives.\<close>

definition handleProductDrop :: "network \<Rightarrow> SavedProduct \<Rightarrow> string \<Rightarrow> kanban \<Rightarrow> kanban" where
  "handleProductDrop net product newCategory st =
     (case handleProductDrop_begin product newCategory st of
        (st1, False) \<Rightarrow> st1
      | (st1, True) \<Rightarrow>
          (case patched net of
             Inr u \<Rightarrow>
               handleProductDrop_settled (fetchedCategories net)
                 (handleProductDrop_patched product newCategory (patched net) st1)
           | Inl e \<Rightarrow>
               fetchProducts_done (fetchedProducts net)
                 (handleProductDrop_patched product newCategory (patched net) st1)))"

section \<open>Deleting a category\<close>

text \<open>
  \<open>pressedDelete\<close> is the button the user presses in the confirmation dialog.
\<close>

definition errorMessage :: "js_error \<Rightarrow> string \<Rightarrow> string" where
  "errorMessage e fallback = (case e of Error m \<Rightarrow> m | Thrown \<Rightarrow> fallback)"

definition handleDeleteCategory :: "bool \<Rightarrow> network \<Rightarrow> string \<Rightarrow> kanban \<Rightarrow> kanban" where
  \<open>handleDeleteCategory pressedDelete net cat st =
     (if cat = Uncategorized
      then emit (Alert ''Error'' ''Cannot delete Uncategorized category'') st
      else
        (let productsInCategory = getProductsByCategory st cat
         in if length productsInCategory > 0
            then emit (Alert ''Cannot Delete''
                   (''Move all '' @ natToString (length productsInCategory)
                      @ '' product(s) from "'' @ cat
                      @ ''" to another category before deleting.'')) st
            else
              (let st = emit (Alert ''Delete Category''
                           (''Are you sure you want to delete "'' @ cat @ ''"?'')) st
               in if pressedDelete
                  then (case deleted net of
                          Inr u \<Rightarrow> fetchCategories (fetchedCategories net) (emit (DeleteCategory cat) st)
                        | Inl e \<Rightarrow>
                            emit (Alert ''Error'' (errorMessage e ''Failed to delete category''))
                              (emit (DeleteCategory cat) st))
                  else st)))\<close>

section \<open>Geometry of the columns\<close>

definition columnStartOnScreen :: "real \<Rightarrow> real \<Rightarrow> int \<Rightarrow> real" where
  "columnStartOnScreen W scrollX i = boardPadding + real_of_int i * columnSpacing W - scrollX"

definition columnEndOnScreen :: "real \<Rightarrow> real \<Rightarrow> int \<Rightarrow> real" where
  "columnEndOnScreen W scrollX i = columnStartOnScreen W scrollX i + columnSpacing W"

definition columnCenterOnScreen :: "real \<Rightarrow> real \<Rightarrow> int \<Rightarrow> real" where
  "columnCenterOnScreen W scrollX i = columnStartOnScreen W scrollX i + columnSpacing W / 2"

definition centerTolerance :: "real \<Rightarrow> real" where
  "centerTolerance W = W * 0.15"

definition tolerance :: "real \<Rightarrow> real" where
  "tolerance W = COLUMN_WIDTH W * 0.5"

text \<open>The bounds check of the detection loop: the span of column \<open>i\<close>, widened by the tolerance.\<close>

definition withinBounds :: "real \<Rightarrow> real \<Rightarrow> int \<Rightarrow> real \<Rightarrow> bool" where
  "withinBounds W scrollX i absoluteX =
     (absoluteX \<ge> columnStartOnScreen W scrollX i - tolerance W
      \<and> absoluteX \<le> columnEndOnScreen W scrollX i + tolerance W)"

text \<open>\<open>distance < minDistance\<close>, with \<open>None\<close> for the initial \<open>Infinity\<close>.\<close>

definition belowMin :: "real \<Rightarrow> real option \<Rightarrow> bool" where
  "belowMin distance minDistance = (case minDistance of None \<Rightarrow> True | Some m \<Rightarrow> distance < m)"

text \<open>
  The \<open>for\<close> loop of \<open>handleDragOverColumn\<close> from index \<open>i\<close> on, over the remaining
  visible categories; it carries \<open>closestColumnIndex\<close>, \<open>minDistance\<close> and
  \<open>cardIsOverColumnCenter\<close>, and returns at once where the source breaks.
\<close>

fun detectColumn ::
  "real \<Rightarrow> real \<Rightarrow> real \<Rightarrow> int \<Rightarrow> string list \<Rightarrow> int \<times> real option \<times> bool \<Rightarrow> int \<times> real option \<times> bool" where
  "detectColumn W scrollX absoluteX i [] acc = acc"
| "detectColumn W scrollX absoluteX i (c # cs) (closestColumnIndex, minDistance, cardIsOverColumnCenter) =
     (if withinBounds W scrollX i absoluteX
      then (i, minDistance,
            (if \<bar>absoluteX - columnCenterOnScreen W scrollX i\<bar> \<le> centerTolerance W
             then True else cardIsOverColumnCenter))
      else if closestColumnIndex = - 1
      then (let distance = \<bar>absoluteX - columnCenterOnScreen W scrollX i\<bar>
            in if belowMin distance minDistance
               then detectColumn W scrollX absoluteX (i + 1) cs (i, Some distance, cardIsOverColumnCenter)
               else detectColumn W scrollX absoluteX (i + 1) cs
                      (closestColumnIndex, minDistance, cardIsOverColumnCenter))
      else detectColumn W scrollX absoluteX (i + 1) cs
             (closestColumnIndex, minDistance, cardIsOverColumnCenter))"

definition closestColumn :: "real \<Rightarrow> real \<Rightarrow> string list \<Rightarrow> real \<Rightarrow> int" where
  "closestColumn W scrollX filteredCats absoluteX =
     fst (detectColumn W scrollX absoluteX 0 filteredCats (- 1, None, False))"

definition overColumnCenter :: "real \<Rightarrow> real \<Rightarrow> string list \<Rightarrow> real \<Rightarrow> bool" where
  "overColumnCenter W scrollX filteredCats absoluteX =
     snd (snd (detectColumn W scrollX absoluteX 0 filteredCats (- 1, None, False)))"

section \<open>Auto-scroll\<close>

definition getCenteredCategoryIndex :: "real \<Rightarrow> kanban \<Rightarrow> int" where
  "getCenteredCategoryIndex W st =
     (let scrollX = currentScrollXRef st;
          screenCenter = W / 2;
          visibleCategories = getFilteredCategories st;
          screenCenterInContent = scrollX + screenCenter;
          relativeCenterX = screenCenterInContent - boardPadding;
          centeredIndex = \<lfloor>relativeCenterX / columnSpacing W\<rfloor>
      in max 0 (min centeredIndex (int (length visibleCategories) - 1)))"

definition scrollToCategory :: "real \<Rightarrow> int \<Rightarrow> kanban \<Rightarrow> kanban" where
  "scrollToCategory W categoryIndex st =
     (if \<not> boardScrollRef st \<or> categoryIndex < 0
         \<or> categoryIndex \<ge> int (length (getFilteredCategories st))
      then st
      else
        (let screenCenter = W / 2;
             columnStart = boardPadding + real_of_int categoryIndex * columnSpacing W;
             columnCenter = columnStart + spacing_sm + COLUMN_WIDTH W / 2;
             targetX = columnCenter - screenCenter
         in (emit (ScrollTo (max 0 targetX)) st)\<lparr>currentScrollXRef := max 0 targetX\<rparr>))"

definition edgeThreshold :: "real \<Rightarrow> real" where
  "edgeThreshold W = W * 0.1"

definition isNearRightEdge :: "real \<Rightarrow> real \<Rightarrow> bool" where
  "isNearRightEdge W absoluteX = (absoluteX > W - edgeThreshold W)"

definition isNearLeftEdge :: "real \<Rightarrow> real \<Rightarrow> bool" where
  "isNearLeftEdge W absoluteX = (absoluteX < edgeThreshold W)"

text \<open>
  The choice of \<open>targetCategoryIndex\<close> and \<open>scrollDirection\<close>; \<open>None\<close> where the source
  returns.
\<close>

definition adjacentTarget :: "real \<Rightarrow> real \<Rightarrow> kanban \<Rightarrow> (int \<times> direction) option" where
  "adjacentTarget W absoluteX st =
     (let centeredCategoryIndex = getCenteredCategoryIndex W st;
          visibleCategories = getFilteredCategories st
      in if isNearRightEdge W absoluteX
         then (let nextIndex = centeredCategoryIndex + 1
               in if nextIndex \<ge> int (length visibleCategories) then None
                  else Some (nextIndex, right))
         else if isNearLeftEdge W absoluteX
         then (let prevIndex = centeredCategoryIndex - 1
               in if prevIndex < 0 then None else Some (prevIndex, left))
         else None)"

definition minScrollInterval :: int where
  "minScrollInterval = 500"

definition scrollBasedOnScreenPosition :: "real \<Rightarrow> int \<Rightarrow> real \<Rightarrow> int \<Rightarrow> kanban \<Rightarrow> kanban" where
  "scrollBasedOnScreenPosition W now absoluteX currentCategoryIndex st =
     (if \<not> boardScrollRef st \<or> isScrollingRef st then st
      else if \<not> isNearRightEdge W absoluteX \<and> \<not> isNearLeftEdge W absoluteX then st
      else
        (case adjacentTarget W absoluteX st of
           None \<Rightarrow> st
         | Some (targetCategoryIndex, scrollDirection) \<Rightarrow>
             if targetCategoryIndex = getCenteredCategoryIndex W st then st
             else if lastScrolledToIndexRef st = targetCategoryIndex \<and> isScrollingRef st then st
             else
               (let timeSinceLastScroll = now - lastScrollTimeRef st
                in if timeSinceLastScroll \<ge> minScrollInterval
                   then
                     (let st = (emit (AutoScroll now targetCategoryIndex) st)
                                 \<lparr>isScrollingRef := True,
                                  lastScrollDirectionRef := Some scrollDirection,
                                  lastScrollTimeRef := now,
                                  lastScrolledToIndexRef := targetCategoryIndex\<rparr>;
                          st = scrollToCategory W targetCategoryIndex st
                      in st\<lparr>scrollResetTimers := scrollResetTimers st @ [now + 500]\<rparr>)
                   else st)))"

text \<open>The callback of the 500 ms timer, and the callback of the 550 ms timer.\<close>

definition scrollResetCallback :: "kanban \<Rightarrow> kanban" where
  "scrollResetCallback st = st\<lparr>isScrollingRef := False\<rparr>"

definition scrollCheckCallback :: "real \<Rightarrow> int \<Rightarrow> int \<Rightarrow> kanban \<Rightarrow> kanban" where
  "scrollCheckCallback W now currentIndex st =
     (if \<not> isScrollingRef st
      then (let latestDragX = currentDragXRef st
            in if isNearRightEdge W latestDragX \<or> isNearLeftEdge W latestDragX
               then scrollBasedOnScreenPosition W now latestDragX currentIndex st
               else st)
      else st)"

section \<open>Resolving the column under the pointer\<close>

definition nonEmpty :: "string option \<Rightarrow> bool" where
  "nonEmpty s = (case s of None \<Rightarrow> False | Some c \<Rightarrow> c \<noteq> [])"

definition setTargets :: "string option \<Rightarrow> kanban \<Rightarrow> kanban" where
  "setTargets t st = st\<lparr>dragTargetCategory := t, draggedProductTargetCategory := t\<rparr>"

text \<open>
  \<open>handleDragOverColumn\<close> runs the detection loop and then three blocks, one after the
  other: the reset of the scroll bookkeeping when the card is over a column's center and
  away from the edges, the auto-scroll check with its 550 ms timer, and the choice of the
  target category.
\<close>

definition resetScrollState :: "bool \<Rightarrow> bool \<Rightarrow> kanban \<Rightarrow> kanban" where
  "resetScrollState cardIsOverColumnCenter isNearEdge st =
     (if cardIsOverColumnCenter \<and> \<not> isNearEdge
      then (if \<not> isScrollingRef st
            then st\<lparr>lastScrollDirectionRef := None, lastScrollTimeRef := 0,
                    lastScrolledToIndexRef := - 1\<rparr>
            else st)\<lparr>scrollTimeoutRef := None\<rparr>
      else st)"

definition checkAutoScroll :: "real \<Rightarrow> int \<Rightarrow> real \<Rightarrow> int \<Rightarrow> bool \<Rightarrow> kanban \<Rightarrow> kanban" where
  "checkAutoScroll W now absoluteX currentIndex isNearEdge st =
     (if isNearEdge \<and> \<not> isScrollingRef st
      then (scrollBasedOnScreenPosition W now absoluteX currentIndex st)
             \<lparr>scrollTimeoutRef := Some (now + 550, currentIndex)\<rparr>
      else st\<lparr>scrollTimeoutRef := None\<rparr>)"

definition chooseTarget :: "int \<Rightarrow> int \<Rightarrow> kanban \<Rightarrow> kanban \<times> string option" where
  "chooseTarget closestColumnIndex currentIndex st =
     (let filteredCatsForDrag = getFilteredCategories st
      in if closestColumnIndex < 0 \<or> closestColumnIndex \<ge> int (length filteredCatsForDrag)
         then (setTargets None st, None)
         else
           (let targetCategory = filteredCatsForDrag ! nat closestColumnIndex;
                currentCategory =
                  (if currentIndex \<ge> 0 \<and> currentIndex < int (length filteredCatsForDrag)
                   then Some (filteredCatsForDrag ! nat currentIndex) else None)
            in if targetCategory \<noteq> [] \<and> nonEmpty currentCategory
                  \<and> Some targetCategory \<noteq> currentCategory
               then (setTargets (Some targetCategory) st, Some targetCategory)
               else (setTargets None st, None)))"

definition handleDragOverColumn ::
  "real \<Rightarrow> int \<Rightarrow> real \<Rightarrow> int \<Rightarrow> kanban \<Rightarrow> kanban \<times> string option" where
  "handleDragOverColumn W now absoluteX currentIndex st =
     (let scrollX = currentScrollXRef st;
          filteredCats = getFilteredCategories st;
          closestColumnIndex = closestColumn W scrollX filteredCats absoluteX;
          cardIsOverColumnCenter = overColumnCenter W scrollX filteredCats absoluteX;
          isNearEdge = (isNearRightEdge W absoluteX \<or> isNearLeftEdge W absoluteX);
          st = resetScrollState cardIsOverColumnCenter isNearEdge st;
          st = checkAutoScroll W now absoluteX currentIndex isNearEdge st
      in chooseTarget closestColumnIndex currentIndex st)"

section \<open>A drag as a sequence of timed events on the board\<close>

text \<open>
  What reaches the board while one card is dragged: a call of \<open>handleDragOverColumn\<close>,
  a call of \<open>handleDragUpdate\<close>, an \<open>onScroll\<close> event of the board, and the two kinds of
  timer callbacks. A timer callback runs only when such a timer is pending and never
  before the time it is due; the clock does not go back. \<open>boardRun\<close> is \<open>None\<close> for a
  sequence that breaks these rules of the platform.

  The calls of an earlier drop can settle during the drag, since only the card that was
  dropped is disabled while its update is pending: \<open>handleProductDrop\<close> then runs on
  from its \<open>await\<close> (\<open>DropPatched\<close> for the PATCH, \<open>DropSettled\<close> for the refetch of the
  categories), and so does \<open>fetchProducts\<close> (\<open>ProductsFetched\<close>).
\<close>

datatype board_event =
    DragOver real int
  | DragMoved real real
  | BoardScrolled real
  | ScrollResetTimer
  | ScrollCheckTimer
  | DropPatched SavedProduct string "js_error + unit"
  | DropSettled "js_error + string list"
  | ProductsFetched "js_error + SavedProduct list"

definition boardStep :: "real \<Rightarrow> int \<Rightarrow> board_event \<Rightarrow> kanban \<Rightarrow> kanban option" where
  "boardStep W now ev st =
     (case ev of
        DragOver absoluteX currentIndex \<Rightarrow>
          Some (fst (handleDragOverColumn W now absoluteX currentIndex st))
      | DragMoved x y \<Rightarrow> Some (handleDragUpdate (x, y) st)
      | BoardScrolled x \<Rightarrow> Some (st\<lparr>currentScrollXRef := x\<rparr>)
      | ScrollResetTimer \<Rightarrow>
          (case scrollResetTimers st of
             [] \<Rightarrow> None
           | due # rest \<Rightarrow>
               if due \<le> now then Some (scrollResetCallback (st\<lparr>scrollResetTimers := rest\<rparr>))
               else None)
      | ScrollCheckTimer \<Rightarrow>
          (case scrollTimeoutRef st of
             None \<Rightarrow> None
           | Some (due, currentIndex) \<Rightarrow>
               if due \<le> now
               then Some (scrollCheckCallback W now currentIndex (st\<lparr>scrollTimeoutRef := None\<rparr>))
               else None)
      | DropPatched product newCategory res \<Rightarrow>
          Some (handleProductDrop_patched product newCategory res st)
      | DropSettled res \<Rightarrow> Some (handleProductDrop_settled res st)
      | ProductsFetched res \<Rightarrow> Some (fetchProducts_done res st))"

fun boardRun :: "real \<Rightarrow> int \<Rightarrow> (int \<times> board_event) list \<Rightarrow> kanban \<Rightarrow> kanban option" where
  "boardRun W t [] st = Some st"
| "boardRun W t ((t', ev) # evs) st =
     (if t' < t then None
      else (case boardStep W t' ev st of
              None \<Rightarrow> None
            | Some st' \<Rightarrow> boardRun W t' evs st'))"

fun autoScrollTimes :: "effect list \<Rightarrow> int list" where
  "autoScrollTimes [] = []"
| "autoScrollTimes (e # es) =
     (case e of AutoScroll t k \<Rightarrow> t # autoScrollTimes es | _ \<Rightarrow> autoScrollTimes es)"

section \<open>The draggable card\<close>

text \<open>
  The shared values and state cells of one \<open>DraggableProduct\<close>. A value set with
  \<open>withSpring(v)\<close> is the value \<open>v\<close> the animation settles at; calls passed through
  \<open>runOnJS\<close> run in the order they are issued.
\<close>

record card =
  translateX :: real
  translateY :: real
  scale :: real
  opacity :: real
  isDragging :: bool
  targetCategoryRef :: "string option"
  dragEnabled :: bool
  dragAbsoluteX :: real
  frameCounter :: nat
  dragging :: bool
  targetCategory :: "string option"
  readyToDrag :: bool

definition initialCard :: card where
  "initialCard =
     \<lparr>translateX = 0, translateY = 0, scale = 1, opacity = 1, isDragging = False,
      targetCategoryRef = None, dragEnabled = False, dragAbsoluteX = 0, frameCounter = 0,
      dragging = False, targetCategory = None, readyToDrag = False\<rparr>"

definition handleDragOver :: "real \<Rightarrow> int \<Rightarrow> int \<Rightarrow> real \<Rightarrow> card \<times> kanban \<Rightarrow> card \<times> kanban" where
  "handleDragOver W now categoryIndex absoluteX cs =
     (case cs of (c, st) \<Rightarrow>
        (case handleDragOverColumn W now absoluteX categoryIndex st of
           (st', newCategory) \<Rightarrow>
             (let prevCategory = targetCategoryRef c;
                  c = c\<lparr>targetCategoryRef := newCategory\<rparr>
              in if prevCategory \<noteq> newCategory
                 then (c\<lparr>targetCategory := newCategory\<rparr>, st')
                 else (c, st'))))"

text \<open>The body of the animated reaction, which passes every third update on.\<close>

definition dragReaction :: "real \<Rightarrow> int \<Rightarrow> int \<Rightarrow> card \<times> kanban \<Rightarrow> card \<times> kanban" where
  "dragReaction W now categoryIndex cs =
     (case cs of (c, st) \<Rightarrow>
        if \<not> isDragging c \<or> \<not> dragEnabled c then (c, st)
        else
          (let c = c\<lparr>frameCounter := frameCounter c + 1\<rparr>
           in if frameCounter c \<ge> 3
              then handleDragOver W now categoryIndex (dragAbsoluteX c) (c\<lparr>frameCounter := 0\<rparr>, st)
              else (c, st)))"

text \<open>
  \<open>handleDrop\<close> calls the asynchronous \<open>onDrop\<close> and does not wait for it: of
  \<open>handleProductDrop\<close> only the part up to its first \<open>await\<close> has run when \<open>handleDrop\<close>
  returns.
\<close>

definition handleDrop :: "SavedProduct \<Rightarrow> card \<times> kanban \<Rightarrow> card \<times> kanban" where
  "handleDrop product cs =
     (case cs of (c, st) \<Rightarrow>
        (let st = (case targetCategoryRef c of
                     None \<Rightarrow> handleDragEnd st
                   | Some cat \<Rightarrow>
                       if cat \<noteq> [] then fst (handleProductDrop_begin product cat st)
                       else handleDragEnd st)
         in (c\<lparr>targetCategoryRef := None, targetCategory := None\<rparr>, st)))"

definition longPress_onStart :: "card \<times> kanban \<Rightarrow> card \<times> kanban" where
  "longPress_onStart cs =
     (case cs of (c, st) \<Rightarrow> (c\<lparr>dragEnabled := True, scale := 1.15, readyToDrag := True\<rparr>, st))"

definition longPress_onEnd :: "card \<times> kanban \<Rightarrow> card \<times> kanban" where
  "longPress_onEnd cs =
     (case cs of (c, st) \<Rightarrow>
        if \<not> isDragging c
        then (c\<lparr>dragEnabled := False, scale := 1, readyToDrag := False\<rparr>, st)
        else (c, st))"

definition pan_onStart ::
  "real \<Rightarrow> int \<Rightarrow> SavedProduct \<Rightarrow> int \<Rightarrow> real \<times> real \<Rightarrow> card \<times> kanban \<Rightarrow> card \<times> kanban" where
  "pan_onStart W now product categoryIndex absolute cs =
     (case cs of (c, st) \<Rightarrow>
        if \<not> dragEnabled c then (c, st)
        else
          (let c = c\<lparr>isDragging := True, frameCounter := 0, dragAbsoluteX := fst absolute,
                     dragging := True, scale := 1.2, opacity := 0\<rparr>;
               st = handleDragStart product absolute st
           in case handleDragOver W now categoryIndex (fst absolute) (c, st) of
                (c, st) \<Rightarrow> (c, handleDragUpdate absolute st)))"

definition pan_onUpdate :: "real \<times> real \<Rightarrow> real \<times> real \<Rightarrow> card \<times> kanban \<Rightarrow> card \<times> kanban" where
  "pan_onUpdate translation absolute cs =
     (case cs of (c, st) \<Rightarrow>
        if \<not> isDragging c \<or> \<not> dragEnabled c then (c, st)
        else (c\<lparr>translateX := fst translation, translateY := snd translation,
                dragAbsoluteX := fst absolute\<rparr>,
              handleDragUpdate absolute st))"

definition resetCard :: "card \<Rightarrow> card" where
  "resetCard c =
     c\<lparr>translateX := 0, translateY := 0, scale := 1, opacity := 1, isDragging := False,
       dragEnabled := False, dragging := False, readyToDrag := False\<rparr>"

definition pan_onEnd :: "SavedProduct \<Rightarrow> card \<times> kanban \<Rightarrow> card \<times> kanban" where
  "pan_onEnd product cs =
     (case cs of (c, st) \<Rightarrow>
        if \<not> isDragging c then (c, st)
        else handleDrop product (resetCard c, handleDragClear st))"

definition pan_onFinalize :: "card \<times> kanban \<Rightarrow> card \<times> kanban" where
  "pan_onFinalize cs =
     (case cs of (c, st) \<Rightarrow>
        if isDragging c then (resetCard c, handleDragClear st) else (c, st))"

section \<open>A gesture as a sequence of callbacks\<close>

text \<open>
  The gesture handler library calls the callbacks of a handler in a fixed order. A pan
  handler that became active gets \<open>onStart\<close>, then \<open>onUpdate\<close>s, then \<open>onEnd\<close> (when the
  finger is lifted, and also when the gesture is cancelled or fails), then
  \<open>onFinalize\<close>; one that never became active gets \<open>onFinalize\<close> alone. A long press that
  became active gets \<open>onStart\<close> and later \<open>onEnd\<close>. The two handlers of a card run
  simultaneously, so their callbacks interleave freely. \<open>gestureRun\<close> is \<open>None\<close> for a
  sequence in another order. Both handlers are disabled while the card's product is
  being updated; that only decides whether a gesture can begin.
\<close>

datatype pan_phase = PanIdle | PanActive | PanEnded | PanFinalized

datatype press_phase = PressIdle | PressActive | PressEnded

datatype gesture_event =
    LongPressStart
  | LongPressEnd
  | PanStart int real real
  | PanUpdate real real real real
  | Reaction int
  | PanEnd
  | PanFinalize

definition gestureStep ::
  "real \<Rightarrow> SavedProduct \<Rightarrow> int \<Rightarrow> gesture_event
   \<Rightarrow> (pan_phase \<times> press_phase) \<times> card \<times> kanban
   \<Rightarrow> ((pan_phase \<times> press_phase) \<times> card \<times> kanban) option" where
  "gestureStep W product categoryIndex ev s =
     (case s of ((pan, press), cs) \<Rightarrow>
        (case ev of
           LongPressStart \<Rightarrow>
             if press = PressIdle then Some ((pan, PressActive), longPress_onStart cs) else None
         | LongPressEnd \<Rightarrow>
             if press = PressActive then Some ((pan, PressEnded), longPress_onEnd cs) else None
         | PanStart now x y \<Rightarrow>
             if pan = PanIdle
             then Some ((PanActive, press), pan_onStart W now product categoryIndex (x, y) cs)
             else None
         | PanUpdate tx ty x y \<Rightarrow>
             if pan = PanActive then Some ((pan, press), pan_onUpdate (tx, ty) (x, y) cs) else None
         | Reaction now \<Rightarrow> Some ((pan, press), dragReaction W now categoryIndex cs)
         | PanEnd \<Rightarrow>
             if pan = PanActive then Some ((PanEnded, press), pan_onEnd product cs) else None
         | PanFinalize \<Rightarrow>
             if pan = PanIdle \<or> pan = PanEnded
             then Some ((PanFinalized, press), pan_onFinalize cs) else None))"

fun gestureRun ::
  "real \<Rightarrow> SavedProduct \<Rightarrow> int \<Rightarrow> gesture_event list
   \<Rightarrow> (pan_phase \<times> press_phase) \<times> card \<times> kanban
   \<Rightarrow> ((pan_phase \<times> press_phase) \<times> card \<times> kanban) option" where
  "gestureRun W product categoryIndex [] s = Some s"
| "gestureRun W product categoryIndex (ev # evs) s =
     (case gestureStep W product categoryIndex ev s of
        None \<Rightarrow> None
      | Some s' \<Rightarrow> gestureRun W product categoryIndex evs s')"

text \<open>No handler of the card is in the middle of a gesture.\<close>

definition gestureOver :: "pan_phase \<times> press_phase \<Rightarrow> bool" where
  "gestureOver ph = (fst ph \<noteq> PanActive \<and> fst ph \<noteq> PanEnded \<and> snd ph \<noteq> PressActive)"

text \<open>
  The card is at rest; the board shows no dragged card (the cells \<open>handleDragClear\<close>
  resets); the board holds no cell of a drag session.
\<close>

definition cardNeutral :: "card \<Rightarrow> bool" where
  "cardNeutral c =
     (\<not> isDragging c \<and> \<not> dragEnabled c \<and> \<not> dragging c \<and> \<not> readyToDrag c
      \<and> targetCategoryRef c = None \<and> targetCategory c = None
      \<and> translateX c = 0 \<and> translateY c = 0 \<and> scale c = 1 \<and> opacity c = 1)"

definition overlayCleared :: "kanban \<Rightarrow> bool" where
  "overlayCleared st =
     (draggedProduct st = None \<and> dragPosition st = None
      \<and> draggedProductTargetCategory st = None)"

definition sessionCleared :: "kanban \<Rightarrow> bool" where
  "sessionCleared st = (overlayCleared st \<and> dragTargetCategory st = None)"

section \<open>The scanner screen\<close>

datatype scan_effect =
    ScanAlert string string
  | GetProductByBarcode string
  | FetchProductByBarcode string
  | SaveProductToDatabase SavedProduct string

text \<open>
  The builtins of the engine (\<open>scanJs\<close>), the state cells of \<open>ScannerScreen\<close> (\<open>product\<close>,
  \<open>loading\<close>, \<open>saving\<close> and \<open>checking\<close> carry the prefix \<open>scan\<close> or \<open>scanned\<close> here) and
  the calls it made, in order.
\<close>

record scanner =
  scanJs :: builtins
  scanned :: bool
  scannedProduct :: "SavedProduct option"
  scanLoading :: bool
  scanSaving :: bool
  scanChecking :: bool
  isExistingProduct :: bool
  manualBarcode :: string
  showManualInput :: bool
  calls :: "scan_effect list"

text \<open>
  The results of the three calls of a scan: the backend lookup (\<open>null\<close> is \<open>None\<close>),
  the catalog fetch (its \<open>response.product\<close>), the save.
\<close>

record lookups =
  existing :: "js_error + SavedProduct option"
  fetched :: "js_error + SavedProduct"
  saved :: "js_error + SavedProduct"

definition call :: "scan_effect \<Rightarrow> scanner \<Rightarrow> scanner" where
  "call e s = s\<lparr>calls := calls s @ [e]\<rparr>"

definition isDigit :: "char \<Rightarrow> bool" where
  "isDigit c = (let n = (of_char c :: nat) in 48 \<le> n \<and> n \<le> 57)"

text \<open>The test \<open>/^\\d+$/\<close>.\<close>

definition allDigits :: "string \<Rightarrow> bool" where
  "allDigits d = (d \<noteq> [] \<and> list_all isDigit d)"

definition saveWarning :: string where
  "saveWarning = ''Product fetched but could not be saved to database. Please check your connection.''"

text \<open>The \<open>finally\<close> block of both handlers.\<close>

definition scanFinally :: "scanner \<Rightarrow> scanner" where
  "scanFinally s = s\<lparr>scanLoading := False, scanSaving := False, scanChecking := False\<rparr>"

definition handleBarCodeScanned :: "lookups \<Rightarrow> string \<Rightarrow> scanner \<Rightarrow> scanner" where
  "handleBarCodeScanned net d s =
     (if scanned s \<or> scanLoading s \<or> scanSaving s \<or> scanChecking s then s
      else if \<not> allDigits d then s
      else
        (let s = s\<lparr>scanned := True, scanChecking := True, scanLoading := False, scanSaving := False,
                   scannedProduct := None, isExistingProduct := False\<rparr>;
             s = call (GetProductByBarcode d) s
         in case existing net of
              Inr (Some existingProduct) \<Rightarrow>
                scanFinally (s\<lparr>scanChecking := False, scannedProduct := Some existingProduct,
                               isExistingProduct := True\<rparr>)
            | _ \<Rightarrow>
                (let s = s\<lparr>scanChecking := False, scanLoading := True\<rparr>;
                     s = call (FetchProductByBarcode d) s
                 in case fetched net of
                      Inl e \<Rightarrow>
                        scanFinally (call (ScanAlert ''Error'' (errorMessage e ''Failed to fetch product'')) s)
                    | Inr externalProduct \<Rightarrow>
                        (let s = s\<lparr>scanLoading := False, scanSaving := True\<rparr>;
                             s = call (SaveProductToDatabase externalProduct Uncategorized) s
                         in case saved net of
                              Inr savedProduct \<Rightarrow>
                                scanFinally (s\<lparr>scannedProduct := Some savedProduct,
                                               isExistingProduct := False\<rparr>)
                            | Inl e \<Rightarrow>
                                scanFinally
                                  (call (ScanAlert ''Warning'' saveWarning)
                                     (s\<lparr>scannedProduct :=
                                           Some (externalProduct\<lparr>category := Some Uncategorized\<rparr>),
                                         isExistingProduct := False\<rparr>))))))"

definition handleManualSubmit :: "lookups \<Rightarrow> scanner \<Rightarrow> scanner" where
  "handleManualSubmit net s =
     (if trim (scanJs s) (manualBarcode s) = []
      then call (ScanAlert ''Error'' ''Please enter a barcode'') s
      else
        (let d = trim (scanJs s) (manualBarcode s);
             s = s\<lparr>scanChecking := True, scanLoading := False, scanSaving := False,
                   scannedProduct := None, isExistingProduct := False\<rparr>;
             s = call (GetProductByBarcode d) s
         in case existing net of
              Inr (Some existingProduct) \<Rightarrow>
                scanFinally (s\<lparr>scanChecking := False, scannedProduct := Some existingProduct,
                               isExistingProduct := True, showManualInput := False,
                               manualBarcode := []\<rparr>)
            | _ \<Rightarrow>
                (let s = s\<lparr>scanChecking := False, scanLoading := True\<rparr>;
                     s = call (FetchProductByBarcode d) s
                 in case fetched net of
                      Inl e \<Rightarrow>
                        scanFinally (call (ScanAlert ''Error'' (errorMessage e ''Failed to fetch product'')) s)
                    | Inr externalProduct \<Rightarrow>
                        (let s = s\<lparr>scanLoading := False, scanSaving := True\<rparr>;
                             s = call (SaveProductToDatabase externalProduct Uncategorized) s
                         in case saved net of
                              Inr savedProduct \<Rightarrow>
                                scanFinally (s\<lparr>scannedProduct := Some savedProduct,
                                               isExistingProduct := False,
                                               showManualInput := False, manualBarcode := []\<rparr>)
                            | Inl e \<Rightarrow>
                                scanFinally
                                  (call (ScanAlert ''Warning'' saveWarning)
                                     (s\<lparr>scannedProduct :=
                                           Some (externalProduct\<lparr>category := Some Uncategorized\<rparr>),
                                         isExistingProduct := False,
                                         showManualInput := False, manualBarcode := []\<rparr>))))))"

text \<open>
  What the screen renders: the product card is on screen when a product is set and
  neither \<open>loading\<close> nor \<open>checking\<close> is (\<open>product && !loading && !checking\<close>).
\<close>

definition displayedProduct :: "scanner \<Rightarrow> SavedProduct option" where
  "displayedProduct s =
     (if \<not> scanLoading s \<and> \<not> scanChecking s then scannedProduct s else None)"

section \<open>Notions used in the properties\<close>

text \<open>
  The two filters of the board as a condition on one product; \<open>getFilteredProducts\<close>
  applies them to the list one after the other.
\<close>

definition passesFilters :: "kanban \<Rightarrow> SavedProduct \<Rightarrow> bool" where
  "passesFilters st p =
     ((selected st \<longrightarrow> Some (categoryOf p) = selectedCategory st)
      \<and> (trim (js st) (searchQuery st) \<noteq> [] \<longrightarrow>
           matchesSearch (js st) (trim (js st) (toLowerCase (js st) (searchQuery st))) p))"

text \<open>Both products carry a timestamp and the first is not older than the second.\<close>

definition newerFirst :: "SavedProduct \<Rightarrow> SavedProduct \<Rightarrow> bool" where
  "newerFirst a b = (\<exists>ta tb. createdAt a = Some ta \<and> createdAt b = Some tb \<and> tb \<le> ta)"

text \<open>
  The state after the scrolling branch of \<open>scrollBasedOnScreenPosition\<close> has run at time
  \<open>now\<close> towards column \<open>k\<close> in direction \<open>d\<close>.
\<close>

definition fired :: "real \<Rightarrow> int \<Rightarrow> int \<Rightarrow> direction \<Rightarrow> kanban \<Rightarrow> kanban" where
  "fired W now k d st =
     (scrollToCategory W k
        ((emit (AutoScroll now k) st)
           \<lparr>isScrollingRef := True, lastScrollDirectionRef := Some d,
            lastScrollTimeRef := now, lastScrolledToIndexRef := k\<rparr>))
       \<lparr>scrollResetTimers := scrollResetTimers st @ [now + 500]\<rparr>"

text \<open>
  The invariant of a drag at time \<open>now\<close>: the auto-scrolls so far are 500 ms apart and
  not in the future; while \<open>isScrollingRef\<close> is set, the one pending reset timer is due
  500 ms after the last auto-scroll; while it is not set, no reset timer is pending and
  the last auto-scroll is at least 500 ms ago.
\<close>

definition coolingDown :: "int \<Rightarrow> kanban \<Rightarrow> bool" where
  "coolingDown now st =
     (let ts = autoScrollTimes (effects st)
      in sorted_wrt (\<lambda>a b. a + 500 \<le> b) ts \<and> list_all (\<lambda>t. t \<le> now) ts
         \<and> (if isScrollingRef st
             then ts \<noteq> [] \<and> scrollResetTimers st = [last ts + 500]
             else scrollResetTimers st = [] \<and> list_all (\<lambda>t. t + 500 \<le> now) ts))"

text \<open>
  The invariant of a gesture: the card is dragging only while its pan handler is active,
  and armed without dragging only while its long press is active; a card that is not
  dragging has its neutral position and no target, and the board shows no dragged card;
  a card neither dragging nor armed has its neutral size.
\<close>

definition gestureInv :: "(pan_phase \<times> press_phase) \<times> card \<times> kanban \<Rightarrow> bool" where
  "gestureInv s =
     (case s of ((pan, press), c, st) \<Rightarrow>
        (isDragging c \<longrightarrow> pan = PanActive)
        \<and> (dragEnabled c \<and> \<not> isDragging c \<longrightarrow> press = PressActive)
        \<and> (\<not> isDragging c \<longrightarrow>
              translateX c = 0 \<and> translateY c = 0 \<and> opacity c = 1
              \<and> targetCategoryRef c = None \<and> targetCategory c = None \<and> \<not> dragging c
              \<and> overlayCleared st)
        \<and> (\<not> isDragging c \<and> \<not> dragEnabled c \<longrightarrow> scale c = 1 \<and> \<not> readyToDrag c))"

text \<open>The events in which the handler of an earlier drop runs \<open>handleDragEnd\<close>.\<close>

definition endsSession :: "board_event \<Rightarrow> bool" where
  "endsSession ev =
     (case ev of
        DropSettled r \<Rightarrow> True
      | DropPatched p c r \<Rightarrow> (case r of Inl e \<Rightarrow> True | Inr u \<Rightarrow> False)
      | _ \<Rightarrow> False)"

text \<open>A scan that the handler takes up: no lookup is running and the code is all digits.\<close>

definition scanAccepted :: "scanner \<Rightarrow> string \<Rightarrow> bool" where
  "scanAccepted s d =
     (\<not> scanned s \<and> \<not> scanLoading s \<and> \<not> scanSaving s \<and> \<not> scanChecking s \<and> allDigits d)"

text \<open>The backend lookup did not find the product: it threw, or it returned null.\<close>

definition notFound :: "lookups \<Rightarrow> bool" where
  "notFound net = (case existing net of Inr (Some p) \<Rightarrow> False | _ \<Rightarrow> True)"

section \<open>Sample data\<close>

text \<open>
  Builtins for the examples. On ASCII strings \<open>asciiTrim\<close> and \<open>asciiLowerCase\<close> are
  \<open>trim\<close> and \<open>toLowerCase\<close>, on digit strings \<open>codeCompare\<close> has the sign of
  \<open>localeCompare\<close>, and on the integers below \<open>10^21\<close> \<open>printInteger\<close> is
  \<open>Number.prototype.toString\<close>; the examples use them on such values only.
\<close>

definition asciiLowerChar :: "char \<Rightarrow> char" where
  "asciiLowerChar c =
     (let n = (of_char c :: nat) in if 65 \<le> n \<and> n \<le> 90 then char_of (n + 32) else c)"

definition asciiLowerCase :: "string \<Rightarrow> string" where
  "asciiLowerCase s = map asciiLowerChar s"

definition asciiWhiteSpace :: "char \<Rightarrow> bool" where
  "asciiWhiteSpace c = (let n = (of_char c :: nat) in n = 32 \<or> (9 \<le> n \<and> n \<le> 13))"

definition asciiTrim :: "string \<Rightarrow> string" where
  "asciiTrim s = rev (dropWhile asciiWhiteSpace (rev (dropWhile asciiWhiteSpace s)))"

fun codeCompare :: "string \<Rightarrow> string \<Rightarrow> int" where
  "codeCompare [] [] = 0"
| "codeCompare [] (y # ys) = - 1"
| "codeCompare (x # xs) [] = 1"
| "codeCompare (x # xs) (y # ys) =
     (if (of_char x :: nat) < of_char y then - 1
      else if (of_char y :: nat) < of_char x then 1
      else codeCompare xs ys)"

definition printInteger :: "real \<Rightarrow> string" where
  "printInteger r =
     (if r < 0 then CHR ''-'' # natToString (nat \<lfloor>- r\<rfloor>) else natToString (nat \<lfloor>r\<rfloor>))"

definition asciiBuiltins :: builtins where
  "asciiBuiltins =
     \<lparr>trim = asciiTrim, toLowerCase = asciiLowerCase, localeCompare = codeCompare,
      toString = printInteger\<rparr>"

definition tea :: SavedProduct where
  "tea = \<lparr>p_id = Some ''p1'', material = 1001, barcode = ''222'', description = ''Green tea'',
           category = None, createdAt = Some 5\<rparr>"

definition milk :: SavedProduct where
  "milk = \<lparr>p_id = Some ''p2'', material = 1002, barcode = ''111'', description = ''Milk'',
            category = Some [], createdAt = Some 5\<rparr>"

definition chips :: SavedProduct where
  "chips = \<lparr>p_id = Some ''p3'', material = 1003, barcode = ''333'', description = ''Potato chips'',
             category = Some ''Snacks'', createdAt = Some 7\<rparr>"

definition nuts :: SavedProduct where
  "nuts = \<lparr>p_id = Some ''p4'', material = 1004, barcode = ''444'', description = ''Salted nuts'',
            category = Some ''Snacks'', createdAt = Some 9\<rparr>"

text \<open>The state \<open>KanbanScreen\<close> starts in, with the board mounted.\<close>

definition initialKanban :: kanban where
  "initialKanban =
     \<lparr>js = asciiBuiltins,
      products = [], categories = [Uncategorized], loading = True, refreshing = False,
      updating = None, dragTargetCategory = None, draggedProduct = None, dragPosition = None,
      draggedProductTargetCategory = None, searchQuery = [], selectedCategory = None,
      boardScrollRef = True, scrollTimeoutRef = None, currentScrollXRef = 0,
      isScrollingRef = False, lastScrollDirectionRef = None, lastScrollTimeRef = 0,
      currentDragXRef = 0, lastScrolledToIndexRef = - 1, scrollResetTimers = [], effects = []\<rparr>"

definition sampleBoard :: kanban where
  "sampleBoard =
     initialKanban\<lparr>products := [tea, milk, chips, nuts],
                   categories := [Uncategorized, ''Snacks'', ''Drinks''], loading := False\<rparr>"

definition idleNetwork :: network where
  "idleNetwork = \<lparr>patched = Inr (), fetchedCategories = Inr [Uncategorized, ''Snacks'', ''Drinks''],
                   fetchedProducts = Inr [], deleted = Inr ()\<rparr>"

definition failingNetwork :: network where
  "failingNetwork = \<lparr>patched = Inl Thrown, fetchedCategories = Inl Thrown,
                      fetchedProducts = Inl Thrown, deleted = Inl Thrown\<rparr>"

text \<open>
  A drag on a 400 wide screen: the pointer goes to the right edge, back to the middle,
  and to the right edge again.
\<close>

definition demoRun :: "(int \<times> board_event) list" where
  "demoRun =
     [(1000, DragOver 390 0), (1200, DragOver 200 0), (1500, ScrollResetTimer),
      (1600, DragOver 200 0), (1600, DragOver 390 0), (1700, DragMoved 395 300),
      (2150, ScrollCheckTimer), (2200, ScrollResetTimer)]"

text \<open>
  The board after \<open>tea\<close> was dropped on "Snacks", with the PATCH of that drop pending;
  and a drag of the card of \<open>milk\<close>, begun after its hold of one second, during which the
  PATCH and then the refetch of the categories settle.
\<close>

definition afterDrop :: kanban where
  "afterDrop = fst (handleProductDrop_begin tea ''Snacks'' sampleBoard)"

definition raceRun :: "(int \<times> board_event) list" where
  "raceRun =
     [(1000, DragOver 390 0), (1040, DropPatched tea ''Snacks'' (Inr ())),
      (1050, DropSettled (Inr [Uncategorized, ''Snacks'', ''Drinks''])),
      (1100, DragOver 390 0)]"

text \<open>
  A gesture on the card of \<open>tea\<close>, on a 400 wide screen: hold the card at 200, drag it
  to the right edge, where the board scrolls to the next column, then back to the middle
  of the screen, and release. And a gesture that is released where it began.
\<close>

definition demoGesture :: "gesture_event list" where
  "demoGesture =
     [LongPressStart, PanStart 1000 200 300, PanUpdate 190 0 390 300,
      Reaction 1100, Reaction 1116, Reaction 1132, PanUpdate 0 0 200 300,
      Reaction 1700, Reaction 1716, Reaction 1732, LongPressEnd, PanEnd, PanFinalize]"

definition idleGesture :: "gesture_event list" where
  "idleGesture =
     [LongPressStart, PanStart 1000 200 300, PanUpdate 6 0 206 300, PanEnd, PanFinalize,
      LongPressEnd]"

definition initialScanner :: scanner where
  "initialScanner =
     \<lparr>scanJs = asciiBuiltins,
      scanned = False, scannedProduct = None, scanLoading = False, scanSaving = False,
      scanChecking = False, isExistingProduct = False, manualBarcode = [],
      showManualInput = False, calls = []\<rparr>"

definition catalogProduct :: SavedProduct where
  "catalogProduct =
     \<lparr>p_id = None, material = 1005, barcode = ''8901012116340'', description = ''Biscuits'',
      category = None, createdAt = None\<rparr>"

text \<open>The backend is down and the catalog answers.\<close>

definition backendDown :: lookups where
  "backendDown = \<lparr>existing = Inl Thrown, fetched = Inr catalogProduct, saved = Inl Thrown\<rparr>"

chapter \<open>Properties\<close>

section \<open>The list of a column\<close>

lemma mset_insertBy: "mset (insertBy cmp x ys) = add_mset x (mset ys)"
  by (induction ys) auto

lemma mset_sortBy: "mset (sortBy cmp xs) = mset xs"
  unfolding sortBy_def by (induction xs) (auto simp: mset_insertBy)

lemma set_insertBy: "set (insertBy cmp x ys) = insert x (set ys)"
  by (induction ys) auto

lemma set_sortBy: "set (sortBy cmp xs) = set xs"
  unfolding sortBy_def by (induction xs) (auto simp: set_insertBy)

lemma compareProducts_dated:
  "createdAt a = Some ta \<Longrightarrow> createdAt b = Some tb \<Longrightarrow> compareProducts B a b = tb - ta"
  by (simp add: compareProducts_def)

lemma sorted_insertBy:
  assumes "createdAt x \<noteq> None" "\<forall>y\<in>set ys. createdAt y \<noteq> None"
    and "sorted_wrt newerFirst ys"
  shows "sorted_wrt newerFirst (insertBy (compareProducts B) x ys)"
  using assms
proof (induction ys)
  case Nil
  then show ?case by simp
next
  case (Cons y ys)
  obtain tx ty where t: "createdAt x = Some tx" "createdAt y = Some ty"
    using Cons.prems by auto
  show ?case
  proof (cases "compareProducts B x y \<le> 0")
    case True
    then have xy: "newerFirst x y" using t by (simp add: compareProducts_dated newerFirst_def)
    have "\<forall>z\<in>set ys. newerFirst x z"
    proof
      fix z assume z: "z \<in> set ys"
      then have "newerFirst y z" using Cons.prems(3) by simp
      then show "newerFirst x z" using xy t by (auto simp: newerFirst_def)
    qed
    then show ?thesis using True xy Cons.prems(3) by simp
  next
    case False
    then have yx: "newerFirst y x" using t by (simp add: compareProducts_dated newerFirst_def)
    have ih: "sorted_wrt newerFirst (insertBy (compareProducts B) x ys)"
      using Cons by simp
    then show ?thesis using False yx Cons.prems(3) by (auto simp: set_insertBy)
  qed
qed

lemma sorted_sortBy:
  "\<forall>y\<in>set xs. createdAt y \<noteq> None \<Longrightarrow> sorted_wrt newerFirst (sortBy (compareProducts B) xs)"
proof (induction xs)
  case Nil
  then show ?case by (simp add: sortBy_def)
next
  case (Cons x xs)
  have "sorted_wrt newerFirst (insertBy (compareProducts B) x (sortBy (compareProducts B) xs))"
    using Cons by (intro sorted_insertBy) (auto simp: set_sortBy)
  then show ?case by (simp add: sortBy_def)
qed

text \<open>Products of one timestamp keep the order they had before sorting.\<close>

lemma stable_insertBy:
  assumes "createdAt x \<noteq> None" "\<forall>y\<in>set ys. createdAt y \<noteq> None"
    and "sorted_wrt newerFirst ys"
  shows "filter (\<lambda>p. createdAt p = Some t) (insertBy (compareProducts B) x ys)
         = filter (\<lambda>p. createdAt p = Some t) (x # ys)"
  using assms
proof (induction ys)
  case Nil
  then show ?case by simp
next
  case (Cons y ys)
  obtain tx ty where t: "createdAt x = Some tx" "createdAt y = Some ty"
    using Cons.prems by auto
  show ?case
  proof (cases "compareProducts B x y \<le> 0")
    case True
    then show ?thesis by simp
  next
    case False
    then have lt: "tx < ty" using t by (simp add: compareProducts_dated)
    have ih: "filter (\<lambda>p. createdAt p = Some t) (insertBy (compareProducts B) x ys)
         = filter (\<lambda>p. createdAt p = Some t) (x # ys)"
      using Cons by simp
    show ?thesis using False ih lt t by auto
  qed
qed

lemma stable_sortBy:
  "\<forall>y\<in>set xs. createdAt y \<noteq> None \<Longrightarrow>
   filter (\<lambda>p. createdAt p = Some t) (sortBy (compareProducts B) xs)
     = filter (\<lambda>p. createdAt p = Some t) xs"
proof (induction xs)
  case Nil
  then show ?case by (simp add: sortBy_def)
next
  case (Cons x xs)
  have "filter (\<lambda>p. createdAt p = Some t)
          (insertBy (compareProducts B) x (sortBy (compareProducts B) xs))
      = filter (\<lambda>p. createdAt p = Some t) (x # sortBy (compareProducts B) xs)"
    using Cons.prems by (intro stable_insertBy sorted_sortBy) (auto simp: set_sortBy)
  then show ?case using Cons by (simp add: sortBy_def)
qed

lemma getFilteredProducts_filter:
  "getFilteredProducts st = filter (passesFilters st) (products st)"
  by (auto simp: getFilteredProducts_def filterProductsBySearch_def passesFilters_def Let_def
      intro: filter_cong)

lemma column_filter:
  "filter (\<lambda>p. categoryOf p = cat) (getFilteredProducts st)
     = filter (\<lambda>p. categoryOf p = cat \<and> passesFilters st p) (products st)"
  unfolding getFilteredProducts_filter by (auto intro: filter_cong)

text \<open>
  C3, as the code has it. For every column, whatever the products are: the column holds
  exactly the products of that category (an empty or missing category counting as
  "Uncategorized") that pass the category filter and the search, each as often as the
  product list holds it. When every product of the column carries a \<open>createdAt\<close>
  timestamp, the column is ordered by descending \<open>createdAt\<close>, and products with equal
  timestamps stay in the order they have in the product list; the barcode does not
  break such ties.
\<close>

theorem column_products_ordered:
  "mset (getProductsByCategory st cat)
     = mset (filter (\<lambda>p. categoryOf p = cat \<and> passesFilters st p) (products st))
   \<and> ((\<forall>p\<in>set (getProductsByCategory st cat). createdAt p \<noteq> None) \<longrightarrow>
        sorted_wrt newerFirst (getProductsByCategory st cat)
        \<and> (\<forall>t. filter (\<lambda>p. createdAt p = Some t) (getProductsByCategory st cat)
               = filter (\<lambda>p. createdAt p = Some t)
                   (filter (\<lambda>p. categoryOf p = cat \<and> passesFilters st p) (products st))))"
proof -
  let ?col = "filter (\<lambda>p. categoryOf p = cat) (getFilteredProducts st)"
  let ?shown = "filter (\<lambda>p. categoryOf p = cat \<and> passesFilters st p) (products st)"
  have col: "?col = ?shown" by (rule column_filter)
  have 1: "mset (getProductsByCategory st cat) = mset ?shown"
    using col by (simp add: getProductsByCategory_def mset_sortBy)
  have 2: "sorted_wrt newerFirst (getProductsByCategory st cat)
        \<and> (\<forall>t. filter (\<lambda>p. createdAt p = Some t) (getProductsByCategory st cat)
               = filter (\<lambda>p. createdAt p = Some t) ?shown)"
    if dated: "\<forall>p\<in>set (getProductsByCategory st cat). createdAt p \<noteq> None"
  proof -
    have all: "\<forall>y\<in>set ?col. createdAt y \<noteq> None"
      using dated by (simp add: getProductsByCategory_def set_sortBy)
    have a: "sorted_wrt newerFirst (getProductsByCategory st cat)"
      unfolding getProductsByCategory_def using all by (rule sorted_sortBy)
    have b: "filter (\<lambda>p. createdAt p = Some t) (getProductsByCategory st cat)
              = filter (\<lambda>p. createdAt p = Some t) ?shown" for t
      unfolding getProductsByCategory_def using stable_sortBy[OF all] col by simp
    show ?thesis using a b by blast
  qed
  show ?thesis using 1 2 by blast
qed

theorem column_products_ordered_witness:
  "list_all (\<lambda>p. createdAt p \<noteq> None) (getProductsByCategory sampleBoard ''Snacks'')
   \<and> getProductsByCategory sampleBoard ''Snacks'' = [nuts, chips]
   \<and> sorted_wrt newerFirst (getProductsByCategory sampleBoard ''Snacks'')
   \<and> mset (getProductsByCategory sampleBoard ''Snacks'')
       = mset (filter (\<lambda>p. categoryOf p = ''Snacks'' \<and> passesFilters sampleBoard p)
                 (products sampleBoard))"
proof -
  have v: "getProductsByCategory sampleBoard ''Snacks'' = [nuts, chips]"
    by code_simp
  have l: "list_all (\<lambda>p. createdAt p \<noteq> None) (getProductsByCategory sampleBoard ''Snacks'')"
    unfolding v by (simp add: nuts_def chips_def)
  then have h: "\<forall>p\<in>set (getProductsByCategory sampleBoard ''Snacks''). createdAt p \<noteq> None"
    by (simp add: list_all_iff)
  show ?thesis using l v h column_products_ordered [of sampleBoard "''Snacks''"] by blast
qed

text \<open>
  The claim C3 as written fails: \<open>tea\<close> and \<open>milk\<close> have the same timestamp, and the
  column shows \<open>tea\<close> (barcode 222) before \<open>milk\<close> (barcode 111).
\<close>

theorem equal_timestamps_not_by_barcode:
  "getProductsByCategory sampleBoard Uncategorized = [tea, milk]
   \<and> createdAt tea = createdAt milk
   \<and> localeCompare (js sampleBoard) (barcode tea) (barcode milk) > 0"
  by code_simp

section \<open>Fetching the categories\<close>





section \<open>Deleting a category\<close>

lemma handleDeleteCategory_sentinel:
  "effects (handleDeleteCategory pressed net Uncategorized st)
     = effects st @ [Alert ''Error'' ''Cannot delete Uncategorized category'']"
  by (simp add: handleDeleteCategory_def emit_def)

lemma handleDeleteCategory_blocked:
  "cat \<noteq> Uncategorized \<Longrightarrow> getProductsByCategory st cat \<noteq> [] \<Longrightarrow>
   DeleteCategory cat \<notin> set (effects st) \<Longrightarrow>
   DeleteCategory cat \<notin> set (effects (handleDeleteCategory pressed net cat st))"
  by (simp add: handleDeleteCategory_def emit_def Let_def)

text \<open>
  C8 at the failing input. The board holds two products of "Snacks" and the search
  "chips" matches one of them. The column "Snacks" is on screen with its delete button;
  the handler blocks the deletion, and its message counts one product, where the
  category holds two.
\<close>

theorem delete_message_counts_filtered_products:
  "getFilteredCategories (sampleBoard\<lparr>searchQuery := ''chips''\<rparr>) = [''Snacks'']
   \<and> effects (handleDeleteCategory pressed net ''Snacks'' (sampleBoard\<lparr>searchQuery := ''chips''\<rparr>))
       = [Alert ''Cannot Delete''
            ''Move all 1 product(s) from \"Snacks\" to another category before deleting.'']
   \<and> length (filter (\<lambda>p. categoryOf p = ''Snacks'')
               (products (sampleBoard\<lparr>searchQuery := ''chips''\<rparr>))) = 2"
  by code_simp

text \<open>
  Called for a category whose products the search hides, the handler finds no product
  and goes on to the deletion.
\<close>

lemma handleDeleteCategory_hidden_products:
  "effects (handleDeleteCategory True idleNetwork ''Snacks'' (sampleBoard\<lparr>searchQuery := ''tea''\<rparr>))
     = [Alert ''Delete Category'' ''Are you sure you want to delete \"Snacks\"?'',
        DeleteCategory ''Snacks'', GetAllCategories]"
  by code_simp

section \<open>Committing a drop\<close>

text \<open>
  C4. A drop on the category the product is in (an empty or missing category counting
  as "Uncategorized") returns before any call: the handler only runs \<open>handleDragEnd\<close>,
  which resets the cells and refs of the drag session. No call is made and no alert is
  shown; the product list, the category list and every other cell stay as they are.
\<close>

theorem drop_on_own_category_noop:
  assumes same: "categoryOf product = targetOf newCategory"
  shows "handleProductDrop net product newCategory st
           = st\<lparr>dragTargetCategory := None, draggedProduct := None, dragPosition := None,
                draggedProductTargetCategory := None, lastScrollDirectionRef := None,
                isScrollingRef := False, lastScrollTimeRef := 0, lastScrolledToIndexRef := - 1,
                currentDragXRef := 0, scrollTimeoutRef := None\<rparr>
       \<and> \<not> snd (handleProductDrop_begin product newCategory st)
       \<and> effects (handleProductDrop net product newCategory st) = effects st
       \<and> products (handleProductDrop net product newCategory st) = products st
       \<and> categories (handleProductDrop net product newCategory st) = categories st"
  using same by (simp add: handleProductDrop_def handleProductDrop_begin_def handleDragEnd_def)

theorem drop_on_own_category_noop_witness:
  "categoryOf tea = targetOf ''Uncategorized''
   \<and> effects (handleProductDrop failingNetwork tea ''Uncategorized'' sampleBoard) = []
   \<and> products (handleProductDrop failingNetwork tea ''Uncategorized'' sampleBoard)
       = [tea, milk, chips, nuts]
   \<and> categories (handleProductDrop failingNetwork tea ''Uncategorized'' sampleBoard)
       = [Uncategorized, ''Snacks'', ''Drinks'']"
proof -
  have h: "categoryOf tea = targetOf ''Uncategorized''"
    by (simp add: categoryOf_def targetOf_def tea_def Uncategorized_def)
  show ?thesis
    using h drop_on_own_category_noop [OF h, of failingNetwork sampleBoard]
    by (simp add: sampleBoard_def initialKanban_def)
qed

text \<open>
  The claim C2 as written fails: after the drop of \<open>tea\<close> on "Snacks" the handler is
  suspended on the PATCH it has just issued, and the product list is the one from
  before the drop, with \<open>tea\<close> in "Uncategorized".
\<close>

theorem list_unchanged_while_patch_in_flight:
  "categoryOf tea \<noteq> targetOf ''Snacks''
   \<and> snd (handleProductDrop_begin tea ''Snacks'' sampleBoard)
   \<and> effects (fst (handleProductDrop_begin tea ''Snacks'' sampleBoard))
       = [UpdateProductCategory ''p1'' ''Snacks'']
   \<and> products (fst (handleProductDrop_begin tea ''Snacks'' sampleBoard)) = [tea, milk, chips, nuts]
   \<and> map categoryOf (products (fst (handleProductDrop_begin tea ''Snacks'' sampleBoard)))
       = [''Uncategorized'', ''Uncategorized'', ''Snacks'', ''Snacks'']"
  by code_simp

text \<open>
  C2, as the code has it. For a drop of a product that has an id on another category,
  the handler first issues the PATCH and is suspended on it, with the product list as
  it was. When the PATCH succeeds, the list is updated: the products with this id get
  the new category. When the PATCH fails, the list is not changed by the handler: it
  shows an alert and starts a refetch of the products.
\<close>

theorem drop_updates_list_after_patch:
  assumes distinct: "categoryOf product \<noteq> targetOf newCategory"
    and ident: "idOf product = Some i"
  shows "let waiting = fst (handleProductDrop_begin product newCategory st) in
      snd (handleProductDrop_begin product newCategory st)
    \<and> effects waiting = effects st @ [UpdateProductCategory i (targetOf newCategory)]
    \<and> products waiting = products st
    \<and> products (handleProductDrop_patched product newCategory (Inr ()) waiting)
        = map (\<lambda>p. if p_id p = p_id product then p\<lparr>category := Some (targetOf newCategory)\<rparr> else p)
            (products st)
    \<and> products (handleProductDrop_patched product newCategory (Inl e) waiting) = products st
    \<and> effects (handleProductDrop_patched product newCategory (Inl e) waiting)
        = effects waiting @ [Alert ''Error'' ''Failed to update product category'', GetAllProducts]"
  using distinct ident
  by (simp add: Let_def handleProductDrop_begin_def handleProductDrop_patched_def emit_def
      fetchCategories_begin_def fetchProducts_begin_def handleDragEnd_def)

theorem drop_updates_list_after_patch_witness:
  "categoryOf tea \<noteq> targetOf ''Snacks'' \<and> idOf tea = Some ''p1''
   \<and> products (fst (handleProductDrop_begin tea ''Snacks'' sampleBoard)) = [tea, milk, chips, nuts]
   \<and> products (handleProductDrop_patched tea ''Snacks'' (Inr ())
                 (fst (handleProductDrop_begin tea ''Snacks'' sampleBoard)))
       = [tea\<lparr>category := Some ''Snacks''\<rparr>, milk, chips, nuts]
   \<and> products (handleProductDrop_patched tea ''Snacks'' (Inl Thrown)
                 (fst (handleProductDrop_begin tea ''Snacks'' sampleBoard)))
       = [tea, milk, chips, nuts]"
proof -
  have h1: "categoryOf tea \<noteq> targetOf ''Snacks''"
    by (simp add: categoryOf_def targetOf_def tea_def Uncategorized_def)
  have h2: "idOf tea = Some ''p1''"
    by (simp add: idOf_def tea_def)
  have t: "targetOf ''Snacks'' = ''Snacks''"
    by (simp add: targetOf_def)
  show ?thesis
    using h1 h2 drop_updates_list_after_patch [OF h1 h2, of sampleBoard Thrown]
    by (simp add: Let_def t sampleBoard_def initialKanban_def tea_def milk_def chips_def nuts_def)
qed

section \<open>The column under the pointer\<close>

lemma detectColumn_first:
  "i < length cs \<Longrightarrow> withinBounds W scrollX (k + int i) x
   \<Longrightarrow> \<forall>j<i. \<not> withinBounds W scrollX (k + int j) x
   \<Longrightarrow> fst (detectColumn W scrollX x k cs acc) = k + int i"
proof (induction cs arbitrary: i k acc)
  case Nil
  then show ?case by simp
next
  case (Cons c cs)
  obtain a b d where acc: "acc = (a, b, d)" by (cases acc)
  show ?case
  proof (cases i)
    case 0
    then show ?thesis using Cons.prems acc by simp
  next
    case (Suc i')
    have nb: "\<not> withinBounds W scrollX k x" using Cons.prems(3) Suc by force
    have 1: "i' < length cs" using Cons.prems Suc by simp
    have 2: "withinBounds W scrollX ((k + 1) + int i') x"
      using Cons.prems Suc by (simp add: algebra_simps)
    have 3: "\<forall>j<i'. \<not> withinBounds W scrollX ((k + 1) + int j) x"
    proof (intro allI impI)
      fix j assume "j < i'"
      then have "\<not> withinBounds W scrollX (k + int (Suc j)) x" using Cons.prems(3) Suc by auto
      then show "\<not> withinBounds W scrollX ((k + 1) + int j) x" by (simp add: algebra_simps)
    qed
    have "fst (detectColumn W scrollX x (k + 1) cs acc') = (k + 1) + int i'" for acc'
      using Cons.IH[OF 1 2 3] .
    then show ?thesis using nb acc Suc by (simp add: Let_def)
  qed
qed

text \<open>Once \<open>closestColumnIndex\<close> is set, only a match of the bounds check changes it.\<close>

lemma detectColumn_none:
  "\<forall>j<length cs. \<not> withinBounds W scrollX (k + int j) x \<Longrightarrow> a \<noteq> - 1
   \<Longrightarrow> fst (detectColumn W scrollX x k cs (a, b, d)) = a"
proof (induction cs arbitrary: k b d)
  case Nil
  then show ?case by simp
next
  case (Cons c cs)
  have nb: "\<not> withinBounds W scrollX k x" using Cons.prems(1) by force
  have 3: "\<forall>j<length cs. \<not> withinBounds W scrollX ((k + 1) + int j) x"
  proof (intro allI impI)
    fix j assume "j < length cs"
    then have "\<not> withinBounds W scrollX (k + int (Suc j)) x" using Cons.prems(1) by auto
    then show "\<not> withinBounds W scrollX ((k + 1) + int j) x" by (simp add: algebra_simps)
  qed
  show ?case using nb Cons.IH[OF 3 Cons.prems(2)] Cons.prems(2) by simp
qed

text \<open>
  The fallback of the loop. After the first column has set \<open>closestColumnIndex\<close>, the
  guard \<open>closestColumnIndex === -1\<close> keeps every later column from being compared: a
  pointer outside every widened span resolves to column 0, whichever center is nearest.
\<close>

lemma closestColumn_fallback:
  assumes ne: "cs \<noteq> []" and out: "\<forall>j<length cs. \<not> withinBounds W scrollX (int j) x"
  shows "closestColumn W scrollX cs x = 0"
proof -
  obtain c cs' where cs: "cs = c # cs'" using ne by (cases cs) auto
  have nb: "\<not> withinBounds W scrollX 0 x" using out cs by force
  have 3: "\<forall>j<length cs'. \<not> withinBounds W scrollX (1 + int j) x"
  proof (intro allI impI)
    fix j assume "j < length cs'"
    then have "\<not> withinBounds W scrollX (int (Suc j)) x" using out cs by auto
    then show "\<not> withinBounds W scrollX (1 + int j) x" by (simp add: algebra_simps)
  qed
  show ?thesis using nb detectColumn_none[OF 3, of 0] by (simp add: closestColumn_def cs belowMin_def)
qed

text \<open>
  On a 1024 wide tablet with two columns, the pointer at 900 is on screen, outside both
  widened spans and nearer to the center of column 1; the loop gives column 0.
\<close>

lemma fallback_not_nearest:
  "\<not> withinBounds 1024 0 0 900 \<and> \<not> withinBounds 1024 0 1 900
   \<and> closestColumn 1024 0 [''Uncategorized'', ''Snacks''] 900 = 0
   \<and> \<bar>900 - columnCenterOnScreen 1024 0 1\<bar> < \<bar>900 - columnCenterOnScreen 1024 0 0\<bar>"
  by code_simp

lemma getFilteredCategories_cong:
  assumes eq: "js a = js b" "products a = products b" "categories a = categories b"
    "searchQuery a = searchQuery b" "selectedCategory a = selectedCategory b"
  shows "getFilteredCategories a = getFilteredCategories b"
proof -
  have s: "selected a = selected b" using eq by (simp add: selected_def)
  have p: "getFilteredProducts a = getFilteredProducts b"
    unfolding getFilteredProducts_def s eq ..
  show ?thesis unfolding getFilteredCategories_def s p eq ..
qed

lemma scrollToCategory_timers [simp]:
  "scrollResetTimers (scrollToCategory W k st) = scrollResetTimers st"
  by (simp add: scrollToCategory_def emit_def Let_def)

text \<open>A call of \<open>scrollBasedOnScreenPosition\<close> either changes nothing or scrolls.\<close>

lemma scroll_cases:
  "scrollBasedOnScreenPosition W now x idx st = st
   \<or> (\<exists>k d. \<not> isScrollingRef st \<and> boardScrollRef st \<and> adjacentTarget W x st = Some (k, d)
        \<and> now - lastScrollTimeRef st \<ge> 500
        \<and> scrollBasedOnScreenPosition W now x idx st = fired W now k d st)"
  by (auto simp: scrollBasedOnScreenPosition_def fired_def Let_def minScrollInterval_def emit_def
      split: option.splits)

lemma fired_board [simp]:
  "js (fired W now k d st) = js st"
  "products (fired W now k d st) = products st"
  "categories (fired W now k d st) = categories st"
  "searchQuery (fired W now k d st) = searchQuery st"
  "selectedCategory (fired W now k d st) = selectedCategory st"
  "draggedProduct (fired W now k d st) = draggedProduct st"
  "dragPosition (fired W now k d st) = dragPosition st"
  "dragTargetCategory (fired W now k d st) = dragTargetCategory st"
  "draggedProductTargetCategory (fired W now k d st) = draggedProductTargetCategory st"
  by (simp_all add: fired_def scrollToCategory_def emit_def Let_def)

lemma scroll_board:
  "js (scrollBasedOnScreenPosition W now x idx st) = js st"
  "products (scrollBasedOnScreenPosition W now x idx st) = products st"
  "categories (scrollBasedOnScreenPosition W now x idx st) = categories st"
  "searchQuery (scrollBasedOnScreenPosition W now x idx st) = searchQuery st"
  "selectedCategory (scrollBasedOnScreenPosition W now x idx st) = selectedCategory st"
  "draggedProduct (scrollBasedOnScreenPosition W now x idx st) = draggedProduct st"
  "dragPosition (scrollBasedOnScreenPosition W now x idx st) = dragPosition st"
  "dragTargetCategory (scrollBasedOnScreenPosition W now x idx st) = dragTargetCategory st"
  "draggedProductTargetCategory (scrollBasedOnScreenPosition W now x idx st)
     = draggedProductTargetCategory st"
  using scroll_cases[of W now x idx st] by auto

lemma getFilteredCategories_blocks:
  "getFilteredCategories (checkAutoScroll W now x idx e (resetScrollState c e' st))
     = getFilteredCategories st"
  by (rule getFilteredCategories_cong)
     (simp_all add: checkAutoScroll_def resetScrollState_def scroll_board)

lemma handleDragOverColumn_result:
  "snd (handleDragOverColumn W now x cur st) =
     (let cats = getFilteredCategories st;
          k = closestColumn W (currentScrollXRef st) cats x
      in if k < 0 \<or> k \<ge> int (length cats) then None
         else if cats ! nat k \<noteq> [] \<and> 0 \<le> cur \<and> cur < int (length cats)
                 \<and> cats ! nat cur \<noteq> [] \<and> cats ! nat k \<noteq> cats ! nat cur
         then Some (cats ! nat k) else None)"
  by (simp add: handleDragOverColumn_def chooseTarget_def Let_def getFilteredCategories_blocks
      nonEmpty_def)

text \<open>
  What the loop computes when a widened span contains the pointer: the first column
  whose widened span contains it. The widened spans of neighbouring columns overlap by a
  whole column width, so this is the left neighbour for a pointer in the left part of a
  column.
\<close>

lemma first_widened_span_resolves:
  assumes "i < length cats" "withinBounds W scrollX (int i) x"
    and "\<forall>j<i. \<not> withinBounds W scrollX (int j) x"
  shows "closestColumn W scrollX cats x = int i
    \<and> (\<forall>st now cur. getFilteredCategories st = cats \<and> currentScrollXRef st = scrollX \<longrightarrow>
          snd (handleDragOverColumn W now x cur st) =
            (if cats ! i \<noteq> [] \<and> 0 \<le> cur \<and> cur < int (length cats)
                \<and> cats ! nat cur \<noteq> [] \<and> cats ! i \<noteq> cats ! nat cur
             then Some (cats ! i) else None))"
proof -
  have k: "closestColumn W scrollX cats x = int i"
    unfolding closestColumn_def using detectColumn_first[of i cats W scrollX 0 x] assms by simp
  show ?thesis using k assms(1)
    by (auto simp: handleDragOverColumn_result Let_def)
qed

text \<open>
  C1 at the failing input. On a 400 wide screen the board is scrolled to 290, so that
  column 1 ("Snacks") spans 42 to 358 on screen. The pointer at 150 lies inside the span
  of column 1, widened or not. The loop stops at column 0, whose widened span reaches to
  192, and for a card dragged from column 1 the handler returns the category of column
  0: the card held over its own column gets "Uncategorized" as its drop target.
\<close>

theorem pointer_in_column_resolves_to_left_neighbour:
  "columnStartOnScreen 400 290 1 = 42 \<and> columnEndOnScreen 400 290 1 = 358
   \<and> withinBounds 400 290 1 150
   \<and> closestColumn 400 290 [''Uncategorized'', ''Snacks'', ''Drinks''] 150 = 0
   \<and> getFilteredCategories (sampleBoard\<lparr>currentScrollXRef := 290\<rparr>)
       = [''Uncategorized'', ''Snacks'', ''Drinks'']
   \<and> snd (handleDragOverColumn 400 1000 150 1 (sampleBoard\<lparr>currentScrollXRef := 290\<rparr>))
       = Some ''Uncategorized''"
  by code_simp

section \<open>The target of an auto-scroll\<close>

lemma columnSpacing_pos: "0 < columnSpacing W"
  by (simp add: columnSpacing_def COLUMN_WIDTH_def spacing_sm_def)

text \<open>
  The distance of the center of column \<open>k\<close> from the middle of the screen, in terms of
  the middle's place in the content.
\<close>

lemma center_offset:
  "W / 2 - columnCenterOnScreen W scrollX k
     = (scrollX + W / 2 - boardPadding) - real_of_int k * columnSpacing W - columnSpacing W / 2"
  by (simp add: columnCenterOnScreen_def columnStartOnScreen_def)

text \<open>
  Of all integers in \<open>[0, n - 1]\<close>, the floor of \<open>m / s\<close>, clamped to that range, is one
  for which \<open>k s + s / 2\<close> is nearest to \<open>m\<close>.
\<close>

lemma clamped_floor_nearest:
  fixes m s :: real and n j :: int
  assumes s: "0 < s" and n: "1 \<le> n" and j: "0 \<le> j" "j < n"
  defines "c \<equiv> max 0 (min \<lfloor>m / s\<rfloor> (n - 1))"
  shows "\<bar>m - real_of_int c * s - s / 2\<bar> \<le> \<bar>m - real_of_int j * s - s / 2\<bar>"
proof -
  define f where "f = \<lfloor>m / s\<rfloor>"
  have lo: "real_of_int f * s \<le> m"
    unfolding f_def using s by (simp add: pos_le_divide_eq[symmetric])
  have hi: "m < (real_of_int f + 1) * s"
    unfolding f_def using s by (simp add: pos_divide_less_eq[symmetric])
  have c_def': "c = max 0 (min f (n - 1))"
    by (simp add: c_def f_def)
  have hi': "m < real_of_int f * s + s"
    using hi by (simp add: algebra_simps)
  have step: "real_of_int a * s \<le> real_of_int b * s" if "a \<le> b" for a b :: int
    using that s by (simp add: mult_right_mono)
  have succ: "real_of_int (a + 1) * s = real_of_int a * s + s" for a :: int
    by (simp add: algebra_simps)
  consider (below) "f < 0" | (inside) "0 \<le> f" "f \<le> n - 1" | (above) "n - 1 < f"
    by linarith
  then show ?thesis
  proof cases
    case below
    then have c: "c = 0" using n by (simp add: c_def')
    have "real_of_int (f + 1) * s \<le> real_of_int 0 * s"
      using below by (intro step) simp
    then have m: "m < 0" using hi' succ[of f] by simp
    have "real_of_int 0 * s \<le> real_of_int j * s" using j by (intro step) simp
    then have "0 \<le> real_of_int j * s" by simp
    then show ?thesis unfolding c using m s by simp
  next
    case inside
    then have c: "c = f" by (simp add: c_def')
    have near: "\<bar>m - real_of_int f * s - s / 2\<bar> \<le> s / 2"
      using lo hi' by linarith
    have far: "s / 2 \<le> \<bar>m - real_of_int j * s - s / 2\<bar>" if "j \<noteq> f"
    proof (cases "j < f")
      case True
      then have "real_of_int (j + 1) * s \<le> real_of_int f * s" by (intro step) simp
      then have "real_of_int j * s + s \<le> m" using lo succ[of j] by linarith
      then show ?thesis by linarith
    next
      case False
      then have "f + 1 \<le> j" using that by simp
      then have "real_of_int (f + 1) * s \<le> real_of_int j * s" by (intro step)
      then have "m < real_of_int j * s" using hi' succ[of f] by linarith
      then show ?thesis using s by linarith
    qed
    show ?thesis
    proof (cases "j = f")
      case True
      then show ?thesis using c by simp
    next
      case False
      then show ?thesis using near far[OF False] unfolding c by linarith
    qed
  next
    case above
    then have c: "c = n - 1" using n by (simp add: c_def')
    have "real_of_int ((n - 1) + 1) * s \<le> real_of_int f * s" using above by (intro step) simp
    then have m: "real_of_int (n - 1) * s + s \<le> m" using lo succ[of "n - 1"] by linarith
    have jn: "real_of_int j * s \<le> real_of_int (n - 1) * s" using j by (intro step) simp
    show ?thesis unfolding c using m jn s by linarith
  qed
qed

text \<open>
  \<open>getCenteredCategoryIndex\<close> is a visible column, and no visible column has its center
  nearer to the middle of the screen.
\<close>

lemma centered_is_nearest:
  assumes "getFilteredCategories st \<noteq> []"
    and "0 \<le> j" "j < int (length (getFilteredCategories st))"
  shows "0 \<le> getCenteredCategoryIndex W st
    \<and> getCenteredCategoryIndex W st < int (length (getFilteredCategories st))
    \<and> \<bar>W / 2 - columnCenterOnScreen W (currentScrollXRef st) (getCenteredCategoryIndex W st)\<bar>
        \<le> \<bar>W / 2 - columnCenterOnScreen W (currentScrollXRef st) j\<bar>"
proof -
  let ?n = "int (length (getFilteredCategories st))"
  let ?m = "currentScrollXRef st + W / 2 - boardPadding"
  have n: "1 \<le> ?n" using assms(1) by (cases "getFilteredCategories st") auto
  have c: "getCenteredCategoryIndex W st = max 0 (min \<lfloor>?m / columnSpacing W\<rfloor> (?n - 1))"
    by (simp add: getCenteredCategoryIndex_def Let_def)
  have r: "0 \<le> getCenteredCategoryIndex W st \<and> getCenteredCategoryIndex W st < ?n"
    unfolding c using n by auto
  have "\<bar>?m - real_of_int (max 0 (min \<lfloor>?m / columnSpacing W\<rfloor> (?n - 1))) * columnSpacing W
          - columnSpacing W / 2\<bar>
        \<le> \<bar>?m - real_of_int j * columnSpacing W - columnSpacing W / 2\<bar>"
    using clamped_floor_nearest[OF columnSpacing_pos n assms(2,3)] .
  then show ?thesis using r unfolding center_offset c by simp
qed

text \<open>
  When the middle of the screen lies in the span of a visible column, that column is
  the centered one.
\<close>

lemma centered_is_under_midpoint:
  assumes k: "0 \<le> k" "k < int (length (getFilteredCategories st))"
    and lo: "columnStartOnScreen W (currentScrollXRef st) k \<le> W / 2"
    and hi: "W / 2 < columnEndOnScreen W (currentScrollXRef st) k"
  shows "getCenteredCategoryIndex W st = k"
proof -
  let ?s = "columnSpacing W" and ?m = "currentScrollXRef st + W / 2 - boardPadding"
  have s: "0 < ?s" by (rule columnSpacing_pos)
  have "real_of_int k * ?s \<le> ?m"
    using lo by (simp add: columnStartOnScreen_def)
  then have 1: "real_of_int k \<le> ?m / ?s"
    using s by (simp add: pos_le_divide_eq)
  have "?m < (real_of_int k + 1) * ?s"
    using hi by (simp add: columnEndOnScreen_def columnStartOnScreen_def algebra_simps)
  then have 2: "?m / ?s < real_of_int k + 1"
    using s by (simp add: pos_divide_less_eq)
  have "\<lfloor>?m / ?s\<rfloor> = k" using 1 2 by (rule floor_unique)
  then show ?thesis using k by (simp add: getCenteredCategoryIndex_def Let_def)
qed

lemma adjacentTarget_range:
  assumes "adjacentTarget W x st = Some (k, d)"
  shows "(k = getCenteredCategoryIndex W st + 1 \<or> k = getCenteredCategoryIndex W st - 1)
         \<and> 0 \<le> k \<and> k < int (length (getFilteredCategories st))"
proof -
  let ?c = "getCenteredCategoryIndex W st" and ?n = "int (length (getFilteredCategories st))"
  have c0: "0 \<le> ?c" by (simp add: getCenteredCategoryIndex_def Let_def)
  have cn: "?c \<le> max 0 (?n - 1)" by (simp add: getCenteredCategoryIndex_def Let_def)
  show ?thesis using assms c0 cn
    by (auto simp: adjacentTarget_def Let_def split: if_splits)
qed

lemma fired_effects:
  assumes "boardScrollRef st" "0 \<le> k" "k < int (length (getFilteredCategories st))"
  shows "effects (fired W now k d st) = effects st @
     [AutoScroll now k,
      ScrollTo (max 0 (boardPadding + real_of_int k * columnSpacing W + spacing_sm
                       + COLUMN_WIDTH W / 2 - W / 2))]"
proof -
  let ?st = "(emit (AutoScroll now k) st)
           \<lparr>isScrollingRef := True, lastScrollDirectionRef := Some d,
            lastScrollTimeRef := now, lastScrolledToIndexRef := k\<rparr>"
  have "getFilteredCategories ?st = getFilteredCategories st"
    by (rule getFilteredCategories_cong) (simp_all add: emit_def)
  then show ?thesis using assms
    by (simp add: fired_def scrollToCategory_def Let_def emit_def)
qed

lemma scroll_effects:
  "effects (scrollBasedOnScreenPosition W now x idx st) = effects st
   \<or> (\<exists>k. (k = getCenteredCategoryIndex W st + 1 \<or> k = getCenteredCategoryIndex W st - 1)
         \<and> 0 \<le> k \<and> k < int (length (getFilteredCategories st))
         \<and> effects (scrollBasedOnScreenPosition W now x idx st) = effects st @
             [AutoScroll now k,
              ScrollTo (max 0 (boardPadding + real_of_int k * columnSpacing W + spacing_sm
                               + COLUMN_WIDTH W / 2 - W / 2))])"
proof -
  consider (idle) "scrollBasedOnScreenPosition W now x idx st = st"
    | (fire) k d where "boardScrollRef st" "adjacentTarget W x st = Some (k, d)"
        "scrollBasedOnScreenPosition W now x idx st = fired W now k d st"
    using scroll_cases[of W now x idx st] by blast
  then show ?thesis
  proof cases
    case idle
    then show ?thesis by simp
  next
    case fire
    have r: "(k = getCenteredCategoryIndex W st + 1 \<or> k = getCenteredCategoryIndex W st - 1)
         \<and> 0 \<le> k \<and> k < int (length (getFilteredCategories st))"
      using adjacentTarget_range[OF fire(2)] .
    then have "effects (fired W now k d st) = effects st @
       [AutoScroll now k,
        ScrollTo (max 0 (boardPadding + real_of_int k * columnSpacing W + spacing_sm
                         + COLUMN_WIDTH W / 2 - W / 2))]"
      using fired_effects[OF fire(1)] by blast
    then show ?thesis using r fire(3) by auto
  qed
qed

text \<open>
  C5. The centered column is the column under the middle of the screen: when the
  middle of the screen lies in the span of a visible column, \<open>getCenteredCategoryIndex\<close>
  is that column; and in every case it is a visible column such that no visible column
  has its center on screen nearer to the middle of the screen, at the scroll offset the
  board is at. A call of \<open>scrollBasedOnScreenPosition\<close> (from a drag-over or from the
  550 ms timer) either makes no call at all, or scrolls once: to a column \<open>k\<close> that is
  this centered column plus or minus one and lies in \<open>[0, visibleColumnCount - 1]\<close>, and
  the scroll command centers exactly column \<open>k\<close>.
\<close>

theorem auto_scroll_targets_adjacent_column:
  "(\<forall>k. 0 \<le> k \<and> k < int (length (getFilteredCategories st))
        \<and> columnStartOnScreen W (currentScrollXRef st) k \<le> W / 2
        \<and> W / 2 < columnEndOnScreen W (currentScrollXRef st) k \<longrightarrow>
       getCenteredCategoryIndex W st = k)
   \<and> (\<forall>j. getFilteredCategories st \<noteq> [] \<and> 0 \<le> j \<and> j < int (length (getFilteredCategories st)) \<longrightarrow>
       0 \<le> getCenteredCategoryIndex W st
       \<and> getCenteredCategoryIndex W st < int (length (getFilteredCategories st))
       \<and> \<bar>W / 2 - columnCenterOnScreen W (currentScrollXRef st) (getCenteredCategoryIndex W st)\<bar>
           \<le> \<bar>W / 2 - columnCenterOnScreen W (currentScrollXRef st) j\<bar>)
   \<and> (effects (scrollBasedOnScreenPosition W now x idx st) = effects st
       \<or> (\<exists>k. (k = getCenteredCategoryIndex W st + 1 \<or> k = getCenteredCategoryIndex W st - 1)
             \<and> 0 \<le> k \<and> k < int (length (getFilteredCategories st))
             \<and> effects (scrollBasedOnScreenPosition W now x idx st) = effects st @
                 [AutoScroll now k,
                  ScrollTo (max 0 (boardPadding + real_of_int k * columnSpacing W + spacing_sm
                                   + COLUMN_WIDTH W / 2 - W / 2))]))"
  using centered_is_under_midpoint[of _ st W] centered_is_nearest[of st _ W]
    scroll_effects[of W now x idx st]
  by blast

text \<open>
  On a 400 wide screen scrolled to 290, column 1 is centered (its center is at the
  middle of the screen); the right edge scrolls to column 2, the left edge to column 0,
  the middle not at all.
\<close>

theorem auto_scroll_targets_adjacent_column_witness:
  "getFilteredCategories (sampleBoard\<lparr>currentScrollXRef := 290\<rparr>)
     = [''Uncategorized'', ''Snacks'', ''Drinks'']
   \<and> columnStartOnScreen 400 290 1 = 42 \<and> columnEndOnScreen 400 290 1 = 358
   \<and> getCenteredCategoryIndex 400 (sampleBoard\<lparr>currentScrollXRef := 290\<rparr>) = 1
   \<and> columnCenterOnScreen 400 290 1 = 400 / 2
   \<and> \<bar>400 / 2 - columnCenterOnScreen 400 290 1\<bar> \<le> \<bar>400 / 2 - columnCenterOnScreen 400 290 0\<bar>
   \<and> effects (scrollBasedOnScreenPosition 400 1000 390 0 (sampleBoard\<lparr>currentScrollXRef := 290\<rparr>))
       = [AutoScroll 1000 2, ScrollTo 606]
   \<and> effects (scrollBasedOnScreenPosition 400 1000 10 2 (sampleBoard\<lparr>currentScrollXRef := 290\<rparr>))
       = [AutoScroll 1000 0, ScrollTo 0]
   \<and> effects (scrollBasedOnScreenPosition 400 1000 200 1 (sampleBoard\<lparr>currentScrollXRef := 290\<rparr>))
       = []"
proof -
  let ?st = "sampleBoard\<lparr>currentScrollXRef := 290\<rparr>"
  have v: "getFilteredCategories ?st = [''Uncategorized'', ''Snacks'', ''Drinks'']
     \<and> columnStartOnScreen 400 290 1 = 42 \<and> columnEndOnScreen 400 290 1 = 358
     \<and> columnCenterOnScreen 400 290 1 = 400 / 2
     \<and> effects (scrollBasedOnScreenPosition 400 1000 390 0 ?st) = [AutoScroll 1000 2, ScrollTo 606]
     \<and> effects (scrollBasedOnScreenPosition 400 1000 10 2 ?st) = [AutoScroll 1000 0, ScrollTo 0]
     \<and> effects (scrollBasedOnScreenPosition 400 1000 200 1 ?st) = []"
    by code_simp
  have c: "currentScrollXRef ?st = 290" by simp
  have m: "(0::int) \<le> 1 \<and> (1::int) < int (length (getFilteredCategories ?st))
     \<and> columnStartOnScreen 400 (currentScrollXRef ?st) 1 \<le> 400 / 2
     \<and> 400 / 2 < columnEndOnScreen 400 (currentScrollXRef ?st) 1"
    using v c by simp
  have k: "getCenteredCategoryIndex 400 ?st = 1"
    using m auto_scroll_targets_adjacent_column [of ?st 400 1000 390 0] by blast
  have n: "getFilteredCategories ?st \<noteq> [] \<and> (0::int) \<le> 0
     \<and> (0::int) < int (length (getFilteredCategories ?st))"
    using v by simp
  have "\<bar>400 / 2 - columnCenterOnScreen 400 (currentScrollXRef ?st) (getCenteredCategoryIndex 400 ?st)\<bar>
           \<le> \<bar>400 / 2 - columnCenterOnScreen 400 (currentScrollXRef ?st) 0\<bar>"
    using n auto_scroll_targets_adjacent_column [of ?st 400 1000 390 0] by blast
  then have "\<bar>400 / 2 - columnCenterOnScreen 400 290 1\<bar> \<le> \<bar>400 / 2 - columnCenterOnScreen 400 290 0\<bar>"
    using k c by simp
  then show ?thesis using v k by blast
qed

section \<open>The cooldown between auto-scrolls\<close>

lemma autoScrollTimes_append:
  "autoScrollTimes (xs @ ys) = autoScrollTimes xs @ autoScrollTimes ys"
  by (induction xs) (auto split: effect.splits)

lemma coolingDown_mono: "coolingDown t st \<Longrightarrow> t \<le> t' \<Longrightarrow> coolingDown t' st"
  by (fastforce simp: coolingDown_def Let_def list_all_iff split: if_splits)

lemma fired_fields:
  "autoScrollTimes (effects (fired W now k d st)) = autoScrollTimes (effects st) @ [now]"
  "isScrollingRef (fired W now k d st)"
  "scrollResetTimers (fired W now k d st) = scrollResetTimers st @ [now + 500]"
  by (simp_all add: fired_def scrollToCategory_def emit_def Let_def autoScrollTimes_append)

lemma coolingDown_fired:
  assumes "coolingDown now st" "\<not> isScrollingRef st"
  shows "coolingDown now (fired W now k d st)"
proof -
  let ?ts = "autoScrollTimes (effects st)"
  have s: "sorted_wrt (\<lambda>a b. a + 500 \<le> b) ?ts" and e: "scrollResetTimers st = []"
    and old: "\<forall>t\<in>set ?ts. t + 500 \<le> now"
    using assms by (simp_all add: coolingDown_def Let_def list_all_iff)
  have "sorted_wrt (\<lambda>a b. a + 500 \<le> b) (?ts @ [now])"
    using s old by (simp add: sorted_wrt_append)
  moreover have "\<forall>t\<in>set (?ts @ [now]). t \<le> now" using old by auto
  ultimately show ?thesis
    by (simp add: coolingDown_def Let_def fired_fields e list_all_iff)
qed

lemma coolingDown_scroll:
  assumes "coolingDown now st"
  shows "coolingDown now (scrollBasedOnScreenPosition W now x idx st)"
  using scroll_cases[of W now x idx st] assms coolingDown_fired by auto

lemma coolingDown_check:
  assumes "coolingDown now st"
  shows "coolingDown now (scrollCheckCallback W now idx st)"
  using assms by (simp add: scrollCheckCallback_def Let_def coolingDown_scroll)

lemma coolingDown_updates [simp]:
  "coolingDown now (st\<lparr>scrollTimeoutRef := a\<rparr>) = coolingDown now st"
  "coolingDown now (st\<lparr>lastScrollDirectionRef := b, lastScrollTimeRef := c,
                      lastScrolledToIndexRef := d\<rparr>) = coolingDown now st"
  "coolingDown now (setTargets t st) = coolingDown now st"
  "coolingDown now (handleDragUpdate pos st) = coolingDown now st"
  "coolingDown now (st\<lparr>currentScrollXRef := x\<rparr>) = coolingDown now st"
  by (simp_all add: coolingDown_def setTargets_def handleDragUpdate_def)

text \<open>
  The reset of the bookkeeping touches \<open>lastScrollTimeRef\<close> only, and only while no
  scroll is in flight; the invariant does not depend on it.
\<close>

lemma coolingDown_resetScrollState:
  "coolingDown now (resetScrollState c e st) = coolingDown now st"
  by (simp add: resetScrollState_def)

lemma coolingDown_checkAutoScroll:
  "coolingDown now st \<Longrightarrow> coolingDown now (checkAutoScroll W now x idx e st)"
  by (simp add: checkAutoScroll_def coolingDown_scroll)

lemma coolingDown_chooseTarget:
  "coolingDown now (fst (chooseTarget k idx st)) = coolingDown now st"
  by (simp add: chooseTarget_def Let_def)

lemma coolingDown_dragOver:
  assumes "coolingDown now st"
  shows "coolingDown now (fst (handleDragOverColumn W now x idx st))"
  unfolding handleDragOverColumn_def Let_def coolingDown_chooseTarget
  using assms by (intro coolingDown_checkAutoScroll) (simp add: coolingDown_resetScrollState)

lemma spaced_last:
  "sorted_wrt (\<lambda>a b. a + 500 \<le> b) ts \<Longrightarrow> t \<in> set ts \<Longrightarrow> t \<le> last (ts :: int list)"
proof (induction ts)
  case Nil
  then show ?case by simp
next
  case (Cons a ts)
  show ?case
  proof (cases "ts = []")
    case True
    then show ?thesis using Cons.prems by simp
  next
    case False
    then have l: "last ts \<in> set ts" by simp
    have "a \<le> last ts" using Cons.prems(1) l by fastforce
    moreover have "t \<in> set ts \<Longrightarrow> t \<le> last ts" using Cons by simp
    ultimately show ?thesis using Cons.prems(2) False by auto
  qed
qed

text \<open>
  When the 500 ms timer fires, every auto-scroll so far is at least 500 ms ago: the
  timer was due 500 ms after the last one.
\<close>

lemma coolingDown_reset:
  assumes "coolingDown t st" "scrollResetTimers st = due # rest" "due \<le> now" "t \<le> now"
  shows "coolingDown now (scrollResetCallback (st\<lparr>scrollResetTimers := rest\<rparr>))"
proof -
  let ?ts = "autoScrollTimes (effects st)"
  have scr: "isScrollingRef st"
    using assms(1,2) by (auto simp: coolingDown_def Let_def split: if_splits)
  then have s: "sorted_wrt (\<lambda>a b. a + 500 \<le> b) ?ts" and d: "due = last ?ts + 500"
    and r: "rest = []" and le: "\<forall>t'\<in>set ?ts. t' \<le> t"
    using assms(1,2) by (simp_all add: coolingDown_def Let_def list_all_iff)
  have "\<forall>t'\<in>set ?ts. t' + 500 \<le> now"
  proof
    fix t' assume "t' \<in> set ?ts"
    then have "t' \<le> last ?ts" using s spaced_last by blast
    then show "t' + 500 \<le> now" using d assms(3) by simp
  qed
  moreover have "\<forall>t'\<in>set ?ts. t' \<le> now" using le assms(4) by auto
  ultimately show ?thesis using s r
    by (simp add: coolingDown_def Let_def scrollResetCallback_def list_all_iff)
qed

text \<open>
  The handler of an earlier drop that runs on from a successful PATCH, and a settled
  \<open>fetchProducts\<close>, leave the scroll state alone.
\<close>

lemma coolingDown_patched_ok:
  "coolingDown now (handleProductDrop_patched product newCategory (Inr u) st) = coolingDown now st"
  by (simp add: handleProductDrop_patched_def fetchCategories_begin_def emit_def
      coolingDown_def autoScrollTimes_append)

lemma coolingDown_fetched:
  "coolingDown now (fetchProducts_done res st) = coolingDown now st"
  by (cases res)
     (simp_all add: fetchProducts_done_def emit_def coolingDown_def autoScrollTimes_append)

lemma coolingDown_step:
  assumes "coolingDown t st" "t \<le> now" "boardStep W now ev st = Some st'"
    and "\<not> endsSession ev"
  shows "coolingDown now st'"
proof -
  have c: "coolingDown now st" using assms(1,2) by (rule coolingDown_mono)
  show ?thesis
  proof (cases ev)
    case (DragOver x idx)
    then show ?thesis using assms(3) c by (auto simp: boardStep_def coolingDown_dragOver)
  next
    case (DragMoved x y)
    then show ?thesis using assms(3) c by (auto simp: boardStep_def)
  next
    case (BoardScrolled x)
    then show ?thesis using assms(3) c by (auto simp: boardStep_def)
  next
    case ScrollResetTimer
    then show ?thesis using assms(1,2,3) coolingDown_reset
      by (auto simp: boardStep_def split: list.splits if_splits)
  next
    case ScrollCheckTimer
    then show ?thesis
      using assms(3) c coolingDown_check[of now "st\<lparr>scrollTimeoutRef := None\<rparr>"]
      by (auto simp: boardStep_def split: option.splits if_splits)
  next
    case (DropPatched product newCategory res)
    then obtain u where "res = Inr u" using assms(4) by (cases res) (simp_all add: endsSession_def)
    then show ?thesis using DropPatched assms(3) c
      by (auto simp: boardStep_def coolingDown_patched_ok)
  next
    case (DropSettled res)
    then show ?thesis using assms(4) by (simp add: endsSession_def)
  next
    case (ProductsFetched res)
    then show ?thesis using assms(3) c by (auto simp: boardStep_def coolingDown_fetched)
  qed
qed

lemma coolingDown_run:
  "coolingDown t st \<Longrightarrow> boardRun W t evs st = Some st' \<Longrightarrow>
   list_all (\<lambda>e. \<not> endsSession (snd e)) evs \<Longrightarrow> \<exists>t'. coolingDown t' st'"
proof (induction evs arbitrary: t st)
  case Nil
  then show ?case by auto
next
  case (Cons e evs)
  obtain now ev where e: "e = (now, ev)" by (cases e)
  from Cons.prems(2) e have le: "t \<le> now" by (simp split: if_splits)
  from Cons.prems(2) e le obtain st1 where st1: "boardStep W now ev st = Some st1"
    and run: "boardRun W now evs st1 = Some st'"
    by (auto split: option.splits)
  have n: "\<not> endsSession ev" and ns: "list_all (\<lambda>e. \<not> endsSession (snd e)) evs"
    using Cons.prems(3) e by simp_all
  have "coolingDown now st1" using Cons.prems(1) le st1 n by (rule coolingDown_step)
  then show ?case using Cons.IH run ns by blast
qed

text \<open>
  As long as no earlier drop ends its session during the drag, the cooldown holds: take
  a drag that starts with no scroll in flight and any sequence of drag-overs, position
  updates, board scroll events, timer callbacks and settled calls other than those in
  which \<open>handleProductDrop\<close> runs \<open>handleDragEnd\<close>, in which the clock does not go back
  and no timer fires before it is due. Then the auto-scrolls are 500 ms apart. The
  reset of the bookkeeping while the card is over the center of a column is one of the
  steps of a drag-over, so the sequence covers it.
\<close>

lemma auto_scrolls_spaced_within_one_session:
  assumes run: "boardRun W t0 evs st0 = Some st"
    and quiet: "list_all (\<lambda>e. \<not> endsSession (snd e)) evs"
    and idle: "\<not> isScrollingRef st0" "scrollResetTimers st0 = []"
    and fresh: "autoScrollTimes (effects st0) = []"
  shows "sorted_wrt (\<lambda>a b. a + 500 \<le> b) (autoScrollTimes (effects st))"
proof -
  have "coolingDown t0 st0" using idle fresh by (simp add: coolingDown_def)
  then obtain t' where "coolingDown t' st" using run quiet coolingDown_run by blast
  then show ?thesis by (simp add: coolingDown_def Let_def)
qed

lemma demoRun_spaced:
  "list_all (\<lambda>e. \<not> endsSession (snd e)) demoRun
   \<and> map_option (\<lambda>s. autoScrollTimes (effects s)) (boardRun 400 0 demoRun sampleBoard)
       = Some [1000, 1600]"
  by code_simp

text \<open>
  \<open>handleDragEnd\<close> opens the cooldown whenever it runs: it clears \<open>isScrollingRef\<close> and
  sets \<open>lastScrollTimeRef\<close> back to 0 without looking at the time of the last
  auto-scroll, and it leaves the pending reset timer in place.
\<close>

lemma handleDragEnd_opens_cooldown:
  "\<not> isScrollingRef (handleDragEnd st) \<and> lastScrollTimeRef (handleDragEnd st) = 0
   \<and> lastScrolledToIndexRef (handleDragEnd st) = - 1
   \<and> scrollResetTimers (handleDragEnd st) = scrollResetTimers st"
  by (simp add: handleDragEnd_def)

text \<open>
  C6 at the failing input. The card \<open>tea\<close> has been dropped on "Snacks" and its PATCH is
  in flight (\<open>afterDrop\<close>: no scroll in flight, no timer pending, no auto-scroll so far).
  The next drag holds a card at the right edge of a 400 wide screen: the drag-over at
  1000 ms scrolls to column 1. At 1040 ms the PATCH of the earlier drop succeeds, and at
  1050 ms its refetch of the categories settles, so \<open>handleProductDrop\<close> runs
  \<open>handleDragEnd\<close>. The drag-over at 1100 ms scrolls again: two auto-scrolls 100 ms
  apart.
\<close>

theorem settled_drop_reopens_cooldown:
  "\<not> isScrollingRef afterDrop \<and> scrollResetTimers afterDrop = []
   \<and> autoScrollTimes (effects afterDrop) = []
   \<and> raceRun = [(1000, DragOver 390 0), (1040, DropPatched tea ''Snacks'' (Inr ())),
                 (1050, DropSettled (Inr [Uncategorized, ''Snacks'', ''Drinks''])),
                 (1100, DragOver 390 0)]
   \<and> map_option (\<lambda>s. autoScrollTimes (effects s)) (boardRun 400 0 raceRun afterDrop)
       = Some [1000, 1100]
   \<and> map_option (\<lambda>s. sorted_wrt (\<lambda>a b. a + 500 \<le> b) (autoScrollTimes (effects s)))
        (boardRun 400 0 raceRun afterDrop) = Some False"
  by code_simp

section \<open>The end of a gesture\<close>

lemma overlayCleared_handleDragClear [simp]: "overlayCleared (handleDragClear st)"
  by (simp add: overlayCleared_def handleDragClear_def)

lemma sessionCleared_handleDragEnd [simp]: "sessionCleared (handleDragEnd st)"
  by (simp add: sessionCleared_def overlayCleared_def handleDragEnd_def)

lemma overlayCleared_handleDragEnd [simp]: "overlayCleared (handleDragEnd st)"
  by (simp add: overlayCleared_def handleDragEnd_def)

lemma overlayCleared_updates [simp]:
  "overlayCleared (st\<lparr>updating := u\<rparr>) = overlayCleared st"
  "overlayCleared (emit e st) = overlayCleared st"
  by (simp_all add: overlayCleared_def emit_def)

text \<open>
  The part of \<open>handleProductDrop\<close> that has run when \<open>handleDrop\<close> returns does not bring
  the dragged card back on the board.
\<close>

lemma overlayCleared_begin:
  "overlayCleared st \<Longrightarrow> overlayCleared (fst (handleProductDrop_begin product cat st))"
  by (simp add: handleProductDrop_begin_def Let_def split: option.splits)

lemma handleDrop_cleared:
  "overlayCleared st \<Longrightarrow> overlayCleared (snd (handleDrop product (c, st)))"
  "fst (handleDrop product (c, st)) = c\<lparr>targetCategoryRef := None, targetCategory := None\<rparr>"
  by (simp_all add: handleDrop_def Let_def overlayCleared_begin split: option.splits)

lemma handleDragOver_flags:
  "isDragging (fst (handleDragOver W now idx x (c, st))) = isDragging c"
  "dragEnabled (fst (handleDragOver W now idx x (c, st))) = dragEnabled c"
  by (simp_all add: handleDragOver_def Let_def split: prod.splits)

lemma inv_LongPressStart:
  "gestureInv ((pan, PressIdle), c, st)
   \<Longrightarrow> gestureInv ((pan, PressActive), longPress_onStart (c, st))"
  by (auto simp: gestureInv_def longPress_onStart_def)

lemma inv_LongPressEnd:
  "gestureInv ((pan, PressActive), c, st)
   \<Longrightarrow> gestureInv ((pan, PressEnded), longPress_onEnd (c, st))"
  by (auto simp: gestureInv_def longPress_onEnd_def)

lemma inv_PanUpdate:
  "gestureInv ((PanActive, press), c, st)
   \<Longrightarrow> gestureInv ((PanActive, press), pan_onUpdate t a (c, st))"
  by (auto simp: gestureInv_def pan_onUpdate_def)

text \<open>
  \<open>onFinalize\<close> comes after \<open>onEnd\<close> or for a handler that never started; in both cases
  the card is not dragging and the callback changes nothing.
\<close>

lemma inv_PanFinalize:
  "pan = PanIdle \<or> pan = PanEnded \<Longrightarrow> gestureInv ((pan, press), c, st)
   \<Longrightarrow> gestureInv ((PanFinalized, press), pan_onFinalize (c, st))"
  by (auto simp: gestureInv_def pan_onFinalize_def)

lemma inv_PanEnd:
  assumes "gestureInv ((PanActive, press), c, st)"
  shows "gestureInv ((PanEnded, press), pan_onEnd product (c, st))"
proof (cases "isDragging c")
  case False
  then show ?thesis using assms by (simp add: pan_onEnd_def gestureInv_def)
next
  case True
  obtain c' st' where r: "handleDrop product (resetCard c, handleDragClear st) = (c', st')"
    by (cases "handleDrop product (resetCard c, handleDragClear st)")
  have 1: "overlayCleared st'"
    using handleDrop_cleared(1)[of "handleDragClear st" product "resetCard c"] r by simp
  have 2: "c' = (resetCard c)\<lparr>targetCategoryRef := None, targetCategory := None\<rparr>"
    using handleDrop_cleared(2)[of product "resetCard c" "handleDragClear st"] r by simp
  show ?thesis using True r 1 2 by (simp add: pan_onEnd_def gestureInv_def resetCard_def)
qed

lemma inv_PanStart:
  assumes "gestureInv ((PanIdle, press), c, st)"
  shows "gestureInv ((PanActive, press), pan_onStart W now product idx a (c, st))"
proof (cases "dragEnabled c")
  case False
  then show ?thesis using assms by (simp add: pan_onStart_def gestureInv_def)
next
  case True
  obtain c' st' where r: "pan_onStart W now product idx a (c, st) = (c', st')"
    by (cases "pan_onStart W now product idx a (c, st)")
  have "isDragging (fst (pan_onStart W now product idx a (c, st)))"
    using True by (simp add: pan_onStart_def Let_def split_beta handleDragOver_flags)
  then show ?thesis using r by (simp add: gestureInv_def)
qed

lemma inv_Reaction:
  assumes "gestureInv ((pan, press), c, st)"
  shows "gestureInv ((pan, press), dragReaction W now idx (c, st))"
proof (cases "isDragging c \<and> dragEnabled c")
  case False
  then show ?thesis using assms by (auto simp: dragReaction_def)
next
  case True
  obtain c' st' where r: "dragReaction W now idx (c, st) = (c', st')"
    by (cases "dragReaction W now idx (c, st)")
  have "isDragging (fst (dragReaction W now idx (c, st)))"
    using True by (simp add: dragReaction_def Let_def handleDragOver_flags)
  then have "isDragging c'" using r by simp
  moreover have "pan = PanActive" using True assms by (simp add: gestureInv_def)
  ultimately show ?thesis using r by (simp add: gestureInv_def)
qed

lemma gestureInv_step:
  assumes "gestureInv s" "gestureStep W product idx ev s = Some s'"
  shows "gestureInv s'"
proof -
  obtain pan press c st where s: "s = ((pan, press), c, st)" by (cases s) auto
  show ?thesis
  proof (cases ev)
    case LongPressStart
    then show ?thesis using assms s inv_LongPressStart
      by (auto simp: gestureStep_def split: if_splits)
  next
    case LongPressEnd
    then show ?thesis using assms s inv_LongPressEnd
      by (auto simp: gestureStep_def split: if_splits)
  next
    case (PanStart now x y)
    then show ?thesis using assms s inv_PanStart
      by (auto simp: gestureStep_def split: if_splits)
  next
    case (PanUpdate tx ty x y)
    then show ?thesis using assms s inv_PanUpdate
      by (auto simp: gestureStep_def split: if_splits)
  next
    case (Reaction now)
    then show ?thesis using assms s inv_Reaction
      by (auto simp: gestureStep_def)
  next
    case PanEnd
    then show ?thesis using assms s inv_PanEnd
      by (auto simp: gestureStep_def split: if_splits)
  next
    case PanFinalize
    then show ?thesis using assms s inv_PanFinalize
      by (auto simp: gestureStep_def split: if_splits)
  qed
qed

lemma gestureInv_run:
  "gestureInv s \<Longrightarrow> gestureRun W product idx evs s = Some s' \<Longrightarrow> gestureInv s'"
proof (induction evs arbitrary: s)
  case Nil
  then show ?case by simp
next
  case (Cons ev evs)
  then obtain s1 where 1: "gestureStep W product idx ev s = Some s1"
    and 2: "gestureRun W product idx evs s1 = Some s'"
    by (auto split: option.splits)
  have "gestureInv s1" using Cons.prems(1) 1 by (rule gestureInv_step)
  then show ?case using Cons.IH 2 by blast
qed

text \<open>
  What \<open>onFinalize\<close> alone does to a dragging card: it resets the flags and the
  transform and clears the dragged product on the board, and it leaves the card's
  target category and the board's \<open>dragTargetCategory\<close> as they are. The card's target is
  cleared by \<open>onEnd\<close>, which the library calls before \<open>onFinalize\<close> for a handler that
  was active.
\<close>

lemma pan_onFinalize_alone:
  assumes "isDragging c"
  shows "fst (pan_onFinalize (c, st)) = resetCard c"
    and "targetCategoryRef (fst (pan_onFinalize (c, st))) = targetCategoryRef c"
    and "dragTargetCategory (snd (pan_onFinalize (c, st))) = dragTargetCategory st"
  using assms by (simp_all add: pan_onFinalize_def resetCard_def handleDragClear_def)

text \<open>
  The part of the session that every end of a gesture clears at once. Take a card at
  rest, a board that shows no dragged card, and any sequence of callbacks of the card's
  two handlers in the order the gesture handler library delivers them. Once no handler
  is in the middle of a gesture, the card is at rest again (dragging and drag-enabled
  flags false, no target category, translation (0, 0), scale 1, opacity 1), and the
  board holds no dragged product, no drag position and no target of the dragged
  product.
\<close>

lemma gesture_end_resets_card:
  assumes run: "gestureRun W product idx evs ((PanIdle, PressIdle), c0, st0) = Some (ph, c, st)"
    and rest: "cardNeutral c0" and clean: "overlayCleared st0"
    and over: "gestureOver ph"
  shows "cardNeutral c \<and> overlayCleared st"
proof -
  have "gestureInv ((PanIdle, PressIdle), c0, st0)"
    using rest clean by (simp add: gestureInv_def cardNeutral_def)
  then have "gestureInv (ph, c, st)" using run by (rule gestureInv_run)
  then show ?thesis using over
    by (cases ph) (auto simp: gestureInv_def gestureOver_def cardNeutral_def)
qed

text \<open>
  A release without a target runs \<open>handleDragEnd\<close> at once and clears the whole session.
\<close>

lemma release_without_target_clears_session:
  assumes "isDragging c" "targetCategoryRef c = None"
  shows "sessionCleared (snd (pan_onEnd product (c, st)))"
    and "\<not> isScrollingRef (snd (pan_onEnd product (c, st)))"
  using assms
  by (simp_all add: pan_onEnd_def handleDrop_def resetCard_def handleDragEnd_def
      sessionCleared_def overlayCleared_def)

text \<open>
  A drop on a target leaves the board's share of the session as it is: with a product
  that has an id and a target other than its own category, \<open>onEnd\<close> returns with the
  PATCH issued and with \<open>dragTargetCategory\<close>, \<open>isScrollingRef\<close> and the scroll bookkeeping
  untouched. They stay so when the PATCH succeeds, and are reset only when the refetch
  of the categories settles, or when the PATCH fails.
\<close>

lemma drop_on_target_keeps_session:
  assumes "isDragging c" "targetCategoryRef c = Some cat" "cat \<noteq> []"
    and "categoryOf product \<noteq> cat" "idOf product = Some i"
  shows "snd (pan_onEnd product (c, st))
           = emit (UpdateProductCategory i cat) ((handleDragClear st)\<lparr>updating := Some i\<rparr>)"
    and "dragTargetCategory (snd (pan_onEnd product (c, st))) = dragTargetCategory st"
    and "isScrollingRef (snd (pan_onEnd product (c, st))) = isScrollingRef st"
  using assms
  by (simp_all add: pan_onEnd_def handleDrop_def resetCard_def handleProductDrop_begin_def
      targetOf_def Let_def emit_def handleDragClear_def)

lemma patched_drop_keeps_session:
  "dragTargetCategory (handleProductDrop_patched product cat (Inr u) st) = dragTargetCategory st"
  by (simp add: handleProductDrop_patched_def fetchCategories_begin_def emit_def)

lemma settled_drop_clears_session:
  "sessionCleared (handleProductDrop_settled res st)"
  "sessionCleared (handleProductDrop_patched product cat (Inl e) st)"
  by (simp_all add: handleProductDrop_settled_def handleProductDrop_patched_def
      sessionCleared_def overlayCleared_def handleDragEnd_def)

text \<open>
  C7 at the failing input. The card of \<open>tea\<close> (column 0, "Uncategorized") on a 400 wide
  screen is held at 200, dragged to the right edge, where the board scrolls to column 1,
  then back to 200, which is now over the middle of "Snacks", and released there. When
  the gesture is over (\<open>onEnd\<close> and \<open>onFinalize\<close> of the pan and \<open>onEnd\<close> of the long
  press have run) the card is at rest and the board shows no dragged card, but the
  board's \<open>dragTargetCategory\<close> is still "Snacks": the session is not cleared while the
  PATCH of the drop is pending. The same card released where it was picked up leaves a
  cleared session.
\<close>

theorem drop_on_target_leaves_target_category:
  "cardNeutral initialCard \<and> sessionCleared sampleBoard
   \<and> map_option (\<lambda>(ph, c, st). (gestureOver ph, cardNeutral c, overlayCleared st))
        (gestureRun 400 tea 0 demoGesture ((PanIdle, PressIdle), initialCard, sampleBoard))
       = Some (True, True, True)
   \<and> map_option (\<lambda>(ph, c, st). (dragTargetCategory st, sessionCleared st, updating st, effects st))
        (gestureRun 400 tea 0 demoGesture ((PanIdle, PressIdle), initialCard, sampleBoard))
       = Some (Some ''Snacks'', False, Some ''p1'',
               [AutoScroll 1132 1, ScrollTo 290, UpdateProductCategory ''p1'' ''Snacks''])
   \<and> map_option (\<lambda>(ph, c, st). (gestureOver ph, cardNeutral c, sessionCleared st, effects st))
        (gestureRun 400 tea 0 idleGesture ((PanIdle, PressIdle), initialCard, sampleBoard))
       = Some (True, True, True, [])"
  by code_simp

section \<open>Scanning when the backend fails\<close>

text \<open>The \<open>finally\<close> block leaves no flag set, so a product that is set is on screen.\<close>

lemma displayed_after_finally:
  "displayedProduct (scanFinally s) = scannedProduct s"
  "\<not> scanLoading (scanFinally s)" "\<not> scanChecking (scanFinally s)" "\<not> scanSaving (scanFinally s)"
  "isExistingProduct (scanFinally s) = isExistingProduct s"
  "calls (scanFinally s) = calls s"
  by (simp_all add: displayedProduct_def scanFinally_def)

lemma handleBarCodeScanned_check_throws:
  assumes "scanAccepted s d" "existing net = Inl e"
  shows "\<exists>more. calls (handleBarCodeScanned net d s)
           = calls s @ [GetProductByBarcode d, FetchProductByBarcode d] @ more"
  using assms
  by (auto simp: handleBarCodeScanned_def scanAccepted_def Let_def call_def scanFinally_def
      split: sum.splits)

lemma handleBarCodeScanned_save_fails:
  assumes "scanAccepted s d" "notFound net" "fetched net = Inr p" "saved net = Inl e"
  shows "displayedProduct (handleBarCodeScanned net d s) = Some (p\<lparr>category := Some Uncategorized\<rparr>)"
    and "\<not> scanLoading (handleBarCodeScanned net d s)"
    and "\<not> scanChecking (handleBarCodeScanned net d s)"
    and "\<not> scanSaving (handleBarCodeScanned net d s)"
    and "\<not> isExistingProduct (handleBarCodeScanned net d s)"
    and "calls (handleBarCodeScanned net d s)
           = calls s @ [GetProductByBarcode d, FetchProductByBarcode d,
                        SaveProductToDatabase p Uncategorized, ScanAlert ''Warning'' saveWarning]"
  using assms
  by (auto simp: handleBarCodeScanned_def scanAccepted_def notFound_def Let_def call_def
      displayed_after_finally split: sum.splits option.splits)

lemma handleBarCodeScanned_check_throws_save_ok:
  assumes "scanAccepted s d" "existing net = Inl e" "fetched net = Inr p" "saved net = Inr q"
  shows "displayedProduct (handleBarCodeScanned net d s) = Some q"
    and "calls (handleBarCodeScanned net d s)
           = calls s @ [GetProductByBarcode d, FetchProductByBarcode d,
                        SaveProductToDatabase p Uncategorized]"
  using assms
  by (auto simp: handleBarCodeScanned_def scanAccepted_def Let_def call_def
      displayed_after_finally split: sum.splits option.splits)

lemma handleManualSubmit_check_throws:
  assumes "trim (scanJs s) (manualBarcode s) \<noteq> []" "existing net = Inl e"
  shows "\<exists>more. calls (handleManualSubmit net s)
           = calls s @ [GetProductByBarcode (trim (scanJs s) (manualBarcode s)),
                        FetchProductByBarcode (trim (scanJs s) (manualBarcode s))] @ more"
  using assms
  by (auto simp: handleManualSubmit_def Let_def call_def scanFinally_def split: sum.splits)

lemma handleManualSubmit_save_fails:
  assumes "trim (scanJs s) (manualBarcode s) \<noteq> []" "notFound net" "fetched net = Inr p"
    and "saved net = Inl e"
  shows "displayedProduct (handleManualSubmit net s) = Some (p\<lparr>category := Some Uncategorized\<rparr>)"
    and "\<not> scanLoading (handleManualSubmit net s)"
    and "\<not> scanChecking (handleManualSubmit net s)"
    and "\<not> scanSaving (handleManualSubmit net s)"
    and "\<not> isExistingProduct (handleManualSubmit net s)"
    and "calls (handleManualSubmit net s)
           = calls s @ [GetProductByBarcode (trim (scanJs s) (manualBarcode s)),
                        FetchProductByBarcode (trim (scanJs s) (manualBarcode s)),
                        SaveProductToDatabase p Uncategorized, ScanAlert ''Warning'' saveWarning]"
  using assms
  by (auto simp: handleManualSubmit_def notFound_def Let_def call_def displayed_after_finally
      split: sum.splits option.splits)

lemma handleManualSubmit_check_throws_save_ok:
  assumes "trim (scanJs s) (manualBarcode s) \<noteq> []" "existing net = Inl e" "fetched net = Inr p"
    and "saved net = Inr q"
  shows "displayedProduct (handleManualSubmit net s) = Some q"
    and "calls (handleManualSubmit net s)
           = calls s @ [GetProductByBarcode (trim (scanJs s) (manualBarcode s)),
                        FetchProductByBarcode (trim (scanJs s) (manualBarcode s)),
                        SaveProductToDatabase p Uncategorized]"
  using assms
  by (auto simp: handleManualSubmit_def Let_def call_def displayed_after_finally
      split: sum.splits option.splits)

text \<open>
  C9. For a scanned barcode the handler takes up, and for a manually entered barcode
  that is not blank after \<open>trim\<close> (whatever the engine's \<open>trim\<close> removes): when the backend
  lookup throws, the next call is the catalog fetch for the same barcode, with no alert
  in between, and if the catalog fetch and the save then succeed the saved product is
  on screen and no alert was shown at all; and when the product is not found in the
  backend, the catalog fetch succeeds and the save fails, the handler ends with the
  fetched product on screen with category "Uncategorized" (the product cell holds it and
  none of \<open>loading\<close>, \<open>checking\<close> and \<open>saving\<close> is left set, which is the condition under
  which the screen renders the product), marked as new, and the last thing the handler
  does is the warning alert.
\<close>

theorem scan_survives_backend_failures:
  "(scanAccepted s d \<and> existing net = Inl e \<longrightarrow>
      (\<exists>more. calls (handleBarCodeScanned net d s)
                = calls s @ [GetProductByBarcode d, FetchProductByBarcode d] @ more))
   \<and> (scanAccepted s d \<and> existing net = Inl e \<and> fetched net = Inr p \<and> saved net = Inr q \<longrightarrow>
        displayedProduct (handleBarCodeScanned net d s) = Some q
        \<and> calls (handleBarCodeScanned net d s)
            = calls s @ [GetProductByBarcode d, FetchProductByBarcode d,
                         SaveProductToDatabase p Uncategorized])
   \<and> (scanAccepted s d \<and> notFound net \<and> fetched net = Inr p \<and> saved net = Inl e' \<longrightarrow>
        displayedProduct (handleBarCodeScanned net d s) = Some (p\<lparr>category := Some Uncategorized\<rparr>)
        \<and> \<not> scanLoading (handleBarCodeScanned net d s)
        \<and> \<not> scanChecking (handleBarCodeScanned net d s)
        \<and> \<not> scanSaving (handleBarCodeScanned net d s)
        \<and> \<not> isExistingProduct (handleBarCodeScanned net d s)
        \<and> calls (handleBarCodeScanned net d s)
            = calls s @ [GetProductByBarcode d, FetchProductByBarcode d,
                         SaveProductToDatabase p Uncategorized, ScanAlert ''Warning'' saveWarning])
   \<and> (trim (scanJs s) (manualBarcode s) \<noteq> [] \<and> existing net = Inl e \<longrightarrow>
        (\<exists>more. calls (handleManualSubmit net s)
                  = calls s @ [GetProductByBarcode (trim (scanJs s) (manualBarcode s)),
                               FetchProductByBarcode (trim (scanJs s) (manualBarcode s))] @ more))
   \<and> (trim (scanJs s) (manualBarcode s) \<noteq> [] \<and> existing net = Inl e \<and> fetched net = Inr p
        \<and> saved net = Inr q \<longrightarrow>
        displayedProduct (handleManualSubmit net s) = Some q
        \<and> calls (handleManualSubmit net s)
            = calls s @ [GetProductByBarcode (trim (scanJs s) (manualBarcode s)),
                         FetchProductByBarcode (trim (scanJs s) (manualBarcode s)),
                         SaveProductToDatabase p Uncategorized])
   \<and> (trim (scanJs s) (manualBarcode s) \<noteq> [] \<and> notFound net \<and> fetched net = Inr p
        \<and> saved net = Inl e' \<longrightarrow>
        displayedProduct (handleManualSubmit net s) = Some (p\<lparr>category := Some Uncategorized\<rparr>)
        \<and> \<not> scanLoading (handleManualSubmit net s)
        \<and> \<not> scanChecking (handleManualSubmit net s)
        \<and> \<not> scanSaving (handleManualSubmit net s)
        \<and> \<not> isExistingProduct (handleManualSubmit net s)
        \<and> calls (handleManualSubmit net s)
            = calls s @ [GetProductByBarcode (trim (scanJs s) (manualBarcode s)),
                         FetchProductByBarcode (trim (scanJs s) (manualBarcode s)),
                         SaveProductToDatabase p Uncategorized, ScanAlert ''Warning'' saveWarning])"
proof (intro conjI impI)
  assume "scanAccepted s d \<and> existing net = Inl e"
  then show "\<exists>more. calls (handleBarCodeScanned net d s)
                = calls s @ [GetProductByBarcode d, FetchProductByBarcode d] @ more"
    using handleBarCodeScanned_check_throws by blast
next
  assume a: "scanAccepted s d \<and> existing net = Inl e \<and> fetched net = Inr p \<and> saved net = Inr q"
  show "displayedProduct (handleBarCodeScanned net d s) = Some q"
    using a handleBarCodeScanned_check_throws_save_ok(1) by blast
  show "calls (handleBarCodeScanned net d s)
            = calls s @ [GetProductByBarcode d, FetchProductByBarcode d,
                         SaveProductToDatabase p Uncategorized]"
    using a handleBarCodeScanned_check_throws_save_ok(2) by blast
next
  assume a: "scanAccepted s d \<and> notFound net \<and> fetched net = Inr p \<and> saved net = Inl e'"
  show "displayedProduct (handleBarCodeScanned net d s) = Some (p\<lparr>category := Some Uncategorized\<rparr>)"
    using a handleBarCodeScanned_save_fails(1) by blast
  show "\<not> scanLoading (handleBarCodeScanned net d s)"
    using a handleBarCodeScanned_save_fails(2) by blast
  show "\<not> scanChecking (handleBarCodeScanned net d s)"
    using a handleBarCodeScanned_save_fails(3) by blast
  show "\<not> scanSaving (handleBarCodeScanned net d s)"
    using a handleBarCodeScanned_save_fails(4) by blast
  show "\<not> isExistingProduct (handleBarCodeScanned net d s)"
    using a handleBarCodeScanned_save_fails(5) by blast
  show "calls (handleBarCodeScanned net d s)
            = calls s @ [GetProductByBarcode d, FetchProductByBarcode d,
                         SaveProductToDatabase p Uncategorized, ScanAlert ''Warning'' saveWarning]"
    using a handleBarCodeScanned_save_fails(6) by blast
next
  assume "trim (scanJs s) (manualBarcode s) \<noteq> [] \<and> existing net = Inl e"
  then show "\<exists>more. calls (handleManualSubmit net s)
                  = calls s @ [GetProductByBarcode (trim (scanJs s) (manualBarcode s)),
                               FetchProductByBarcode (trim (scanJs s) (manualBarcode s))] @ more"
    using handleManualSubmit_check_throws by blast
next
  assume a: "trim (scanJs s) (manualBarcode s) \<noteq> [] \<and> existing net = Inl e \<and> fetched net = Inr p
        \<and> saved net = Inr q"
  show "displayedProduct (handleManualSubmit net s) = Some q"
    using a handleManualSubmit_check_throws_save_ok(1) by blast
  show "calls (handleManualSubmit net s)
            = calls s @ [GetProductByBarcode (trim (scanJs s) (manualBarcode s)),
                         FetchProductByBarcode (trim (scanJs s) (manualBarcode s)),
                         SaveProductToDatabase p Uncategorized]"
    using a handleManualSubmit_check_throws_save_ok(2) by blast
next
  assume a: "trim (scanJs s) (manualBarcode s) \<noteq> [] \<and> notFound net \<and> fetched net = Inr p
        \<and> saved net = Inl e'"
  show "displayedProduct (handleManualSubmit net s) = Some (p\<lparr>category := Some Uncategorized\<rparr>)"
    using a handleManualSubmit_save_fails(1) by blast
  show "\<not> scanLoading (handleManualSubmit net s)"
    using a handleManualSubmit_save_fails(2) by blast
  show "\<not> scanChecking (handleManualSubmit net s)"
    using a handleManualSubmit_save_fails(3) by blast
  show "\<not> scanSaving (handleManualSubmit net s)"
    using a handleManualSubmit_save_fails(4) by blast
  show "\<not> isExistingProduct (handleManualSubmit net s)"
    using a handleManualSubmit_save_fails(5) by blast
  show "calls (handleManualSubmit net s)
            = calls s @ [GetProductByBarcode (trim (scanJs s) (manualBarcode s)),
                         FetchProductByBarcode (trim (scanJs s) (manualBarcode s)),
                         SaveProductToDatabase p Uncategorized, ScanAlert ''Warning'' saveWarning]"
    using a handleManualSubmit_save_fails(6) by blast
qed

theorem scan_survives_backend_failures_witness:
  "scanAccepted initialScanner ''8901012116340''
   \<and> existing backendDown = Inl Thrown \<and> notFound backendDown
   \<and> fetched backendDown = Inr catalogProduct \<and> saved backendDown = Inl Thrown
   \<and> trim (scanJs (initialScanner\<lparr>manualBarcode := '' 8901012116340 ''\<rparr>))
        (manualBarcode (initialScanner\<lparr>manualBarcode := '' 8901012116340 ''\<rparr>))
       = ''8901012116340''
   \<and> displayedProduct (handleBarCodeScanned backendDown ''8901012116340'' initialScanner)
       = Some (catalogProduct\<lparr>category := Some Uncategorized\<rparr>)
   \<and> \<not> scanSaving (handleBarCodeScanned backendDown ''8901012116340'' initialScanner)
   \<and> calls (handleBarCodeScanned backendDown ''8901012116340'' initialScanner)
       = [GetProductByBarcode ''8901012116340'', FetchProductByBarcode ''8901012116340'',
          SaveProductToDatabase catalogProduct Uncategorized, ScanAlert ''Warning'' saveWarning]
   \<and> displayedProduct (handleManualSubmit backendDown
                         (initialScanner\<lparr>manualBarcode := '' 8901012116340 ''\<rparr>))
       = Some (catalogProduct\<lparr>category := Some Uncategorized\<rparr>)
   \<and> calls (handleManualSubmit backendDown (initialScanner\<lparr>manualBarcode := '' 8901012116340 ''\<rparr>))
       = [GetProductByBarcode ''8901012116340'', FetchProductByBarcode ''8901012116340'',
          SaveProductToDatabase catalogProduct Uncategorized, ScanAlert ''Warning'' saveWarning]"
proof -
  let ?m = "initialScanner\<lparr>manualBarcode := '' 8901012116340 ''\<rparr>"
  have h: "scanAccepted initialScanner ''8901012116340''
     \<and> existing backendDown = Inl Thrown \<and> notFound backendDown
     \<and> fetched backendDown = Inr catalogProduct \<and> saved backendDown = Inl Thrown
     \<and> trim (scanJs ?m) (manualBarcode ?m) = ''8901012116340''"
    by code_simp
  then have t: "trim (scanJs ?m) (manualBarcode ?m) \<noteq> []" by simp
  have c0: "calls initialScanner = []" "calls ?m = []" by (simp_all add: initialScanner_def)
  have a: "displayedProduct (handleBarCodeScanned backendDown ''8901012116340'' initialScanner)
             = Some (catalogProduct\<lparr>category := Some Uncategorized\<rparr>)
     \<and> \<not> scanSaving (handleBarCodeScanned backendDown ''8901012116340'' initialScanner)
     \<and> calls (handleBarCodeScanned backendDown ''8901012116340'' initialScanner)
         = calls initialScanner
           @ [GetProductByBarcode ''8901012116340'', FetchProductByBarcode ''8901012116340'',
              SaveProductToDatabase catalogProduct Uncategorized, ScanAlert ''Warning'' saveWarning]"
    using h
      scan_survives_backend_failures [of initialScanner "''8901012116340''" backendDown Thrown
        catalogProduct catalogProduct Thrown]
    by blast
  have b: "displayedProduct (handleManualSubmit backendDown ?m)
             = Some (catalogProduct\<lparr>category := Some Uncategorized\<rparr>)
     \<and> calls (handleManualSubmit backendDown ?m)
         = calls ?m
           @ [GetProductByBarcode (trim (scanJs ?m) (manualBarcode ?m)),
              FetchProductByBarcode (trim (scanJs ?m) (manualBarcode ?m)),
              SaveProductToDatabase catalogProduct Uncategorized, ScanAlert ''Warning'' saveWarning]"
    using h t
      scan_survives_backend_failures [of ?m "''8901012116340''" backendDown Thrown
        catalogProduct catalogProduct Thrown]
    by blast
  show ?thesis using h a b c0 by simp
qed

end
